theory Spec2Isabelle
  imports Complex_Main "HOL-Library.Sublist"
begin

section \<open>Python values\<close>

text \<open>
  The agents exchange JSON-shaped Python objects: what the collaborator's
  \<^verbatim>\<open>generate_json\<close> returns, the debate history, the openings. \<open>JNull\<close> is
  Python's \<^verbatim>\<open>None\<close>; a dict is an association list read with \<open>map_of\<close>, so
  a list that repeats a key stands for the dict of its first bindings. A float is a
  real number: only whether it is zero is ever read.
\<close>

datatype json =
    JNull
  | JBool bool
  | JInt int
  | JFloat real
  | JStr string
  | JList "json list"
  | JDict "(string \<times> json) list"

type_synonym dict = "(string \<times> json) list"

text \<open>Truth value of an object, as \<^verbatim>\<open>not x\<close> and \<^verbatim>\<open>if x:\<close> read it.\<close>

fun truthy :: "json \<Rightarrow> bool" where
  "truthy JNull = False"
| "truthy (JBool b) = b"
| "truthy (JInt i) = (i \<noteq> 0)"
| "truthy (JFloat r) = (r \<noteq> 0)"
| "truthy (JStr s) = (s \<noteq> [])"
| "truthy (JList xs) = (xs \<noteq> [])"
| "truthy (JDict kvs) = (kvs \<noteq> [])"

section \<open>Errors\<close>

text \<open>
  Every \<^verbatim>\<open>raise\<close> of the two agent modules is a \<^verbatim>\<open>ValueError\<close>; the
  constructors below are the messages, one per raise site, with the values the
  f-string interpolates. \<open>Chr_arg_not_in_range\<close> is the \<^verbatim>\<open>ValueError\<close> of the
  builtin \<^verbatim>\<open>chr\<close>.
\<close>

datatype value_error =
    Invalid_debater_response json
  | Must_generate_opening_before_rebuttal
  | Invalid_rebuttal_response json
  | Invalid_IRAC_debater_response json
  | Missing_IRAC_component string json
  | Invalid_IRAC_rebuttal_response json
  | Missing_rebuttal_component string json
  | Invalid_judge_response json
  | Invalid_decision_choice json
  | Invalid_judge_IRAC_response json
  | Missing_synthesis json
  | Missing_synthesis_IRAC_component string json
  | Invalid_judge_hybrid_response json
  | Decision_doesnt_match_winner string json json
  | Chr_arg_not_in_range

datatype py_error =
    ValueError value_error
  | KeyError string
  | TypeError
  | AttributeError
  | ImportError string string
  | GenerationError string

text \<open>
  The error taxonomy of the specification, read over the raise sites of the code:
  the code has one exception type for the first three classes and tells them apart
  by message only.
\<close>

datatype error_class =
  SchemaError | SequenceError | ConsistencyError | GenerationFailure | Unclassified

fun spec_error_class :: "py_error \<Rightarrow> error_class" where
  "spec_error_class (ValueError Must_generate_opening_before_rebuttal) = SequenceError"
| "spec_error_class (ValueError (Decision_doesnt_match_winner w d p)) = ConsistencyError"
| "spec_error_class (ValueError Chr_arg_not_in_range) = Unclassified"
| "spec_error_class (ValueError v) = SchemaError"
| "spec_error_class (GenerationError m) = GenerationFailure"
| "spec_error_class e = Unclassified"

definition and_then :: "py_error + 'a \<Rightarrow> ('a \<Rightarrow> py_error + 'b) \<Rightarrow> py_error + 'b" where
  "and_then m f = (case m of Inl e \<Rightarrow> Inl e | Inr v \<Rightarrow> f v)"

section \<open>The operations of Python the agents use\<close>

text \<open>\<^verbatim>\<open>obj.get(key, default)\<close>: only a dict has the method.\<close>

fun py_get :: "json \<Rightarrow> string \<Rightarrow> json \<Rightarrow> py_error + json" where
  "py_get (JDict kvs) k d = Inr (case map_of kvs k of Some v \<Rightarrow> v | None \<Rightarrow> d)"
| "py_get obj k d = Inl AttributeError"

text \<open>
  \<^verbatim>\<open>key in obj\<close> for a \<^verbatim>\<open>str\<close> key: a key of a dict, an element of a list, a
  substring of a string; the other objects are not iterable.
\<close>

fun py_in :: "string \<Rightarrow> json \<Rightarrow> py_error + bool" where
  "py_in k (JDict kvs) = Inr (map_of kvs k \<noteq> None)"
| "py_in k (JList xs) = Inr (JStr k \<in> set xs)"
| "py_in k (JStr s) = Inr (sublist k s)"
| "py_in k obj = Inl TypeError"

text \<open>\<^verbatim>\<open>obj[key]\<close> for a \<^verbatim>\<open>str\<close> key: a list, a string and a number refuse it.\<close>

fun py_getitem :: "json \<Rightarrow> string \<Rightarrow> py_error + json" where
  "py_getitem (JDict kvs) k = (case map_of kvs k of Some v \<Rightarrow> Inr v | None \<Rightarrow> Inl (KeyError k))"
| "py_getitem obj k = Inl TypeError"

text \<open>
  The loop \<^verbatim>\<open>for key in keys: if key not in obj: raise ValueError(...)\<close>, shared by
  the IRAC validations; \<open>err\<close> builds the message from the missing key.
\<close>

fun require_keys :: "(string \<Rightarrow> value_error) \<Rightarrow> string list \<Rightarrow> json \<Rightarrow> py_error + unit" where
  "require_keys err [] obj = Inr ()"
| "require_keys err (key # keys) obj =
     (case py_in key obj of
        Inl e \<Rightarrow> Inl e
      | Inr present \<Rightarrow>
          if \<not> present then Inl (ValueError (err key)) else require_keys err keys obj)"

section \<open>Prompts\<close>

text \<open>
  A prompt is an f-string: a fixed template with values interpolated. No operation
  reads the text back, so a prompt is kept as the name of its template and the
  interpolated texts in order; \<open>Str v\<close> stands for \<^verbatim>\<open>str(v)\<close> and \<open>Chr n\<close> for
  \<^verbatim>\<open>chr(n)\<close>.
\<close>

datatype fragment = Lit string | Chr nat | Str json

type_synonym ptext = "fragment list"

datatype prompt = Prompt string "ptext list"

fun join :: "ptext \<Rightarrow> ptext list \<Rightarrow> ptext" where
  "join sep [] = []"
| "join sep [t] = t"
| "join sep (t # ts) = t @ sep @ join sep ts"

text \<open>
  \<^verbatim>\<open>"\n".join([f"{chr(65+i)}) {choice}" for i, choice in enumerate(choices)])\<close>:
  \<^verbatim>\<open>chr\<close> accepts code points up to \<open>0x10FFFF\<close> only.
\<close>

definition choices_text :: "json list \<Rightarrow> py_error + ptext" where
  "choices_text choices =
     (if length choices \<le> 1114047
      then Inr (join [Lit [CHR 0x0A]]
                 (map (\<lambda>(i, choice). [Chr (65 + i), Lit '') '', Str choice])
                      (enumerate 0 choices)))
      else Inl (ValueError Chr_arg_not_in_range))"

definition full_question :: "string \<Rightarrow> string \<Rightarrow> ptext" where
  "full_question prompt_context question =
     (if prompt_context \<noteq> []
      then [Lit prompt_context, Lit [CHR 0x0A, CHR 0x0A], Lit question]
      else [Lit question])"

definition empty_dict :: json where
  "empty_dict = JDict []"

definition empty_str :: json where
  "empty_str = JStr []"

text \<open>\<^verbatim>\<open>obj.get(k1, {}).get(k2, d)\<close>\<close>

definition get2 :: "json \<Rightarrow> string \<Rightarrow> string \<Rightarrow> json \<Rightarrow> py_error + json" where
  "get2 obj k1 k2 d = and_then (py_get obj k1 empty_dict) (\<lambda>inner. py_get inner k2 d)"

subsection \<open>Module \<^verbatim>\<open>src/agents/prompts_experimental.py\<close>\<close>

definition get_debater_opening_prompt ::
  "string \<Rightarrow> string \<Rightarrow> json list \<Rightarrow> string option \<Rightarrow> py_error + prompt" where
  "get_debater_opening_prompt question prompt_context choices position =
     and_then (choices_text choices) (\<lambda>ct.
       case position of
         None \<Rightarrow> Inr (Prompt ''debater_opening_free''
                        [full_question prompt_context question, ct])
       | Some p \<Rightarrow> Inr (Prompt ''debater_opening_assigned''
                        [full_question prompt_context question, ct, [Lit p], [Lit p]]))"

definition get_debater_rebuttal_prompt ::
  "string \<Rightarrow> string \<Rightarrow> json \<Rightarrow> json \<Rightarrow> dict \<Rightarrow> py_error + prompt" where
  "get_debater_rebuttal_prompt question prompt_context my_position my_opening opponent_opening =
     and_then (py_get my_opening ''argument'' empty_str) (\<lambda>my_arg.
     and_then (py_get (JDict opponent_opening) ''position'' empty_str) (\<lambda>opp_pos.
     and_then (py_get (JDict opponent_opening) ''argument'' empty_str) (\<lambda>opp_arg.
       Inr (Prompt ''debater_rebuttal''
             [full_question prompt_context question, [Str my_position], [Str my_arg],
              [Str opp_pos], [Str opp_arg], [Str my_position]]))))"

definition get_judge_decision_prompt ::
  "string \<Rightarrow> string \<Rightarrow> json list \<Rightarrow> dict \<Rightarrow> py_error + prompt" where
  "get_judge_decision_prompt question prompt_context choices debate_history =
     and_then (choices_text choices) (\<lambda>ct.
     and_then (py_get (JDict debate_history) ''debater_x'' empty_dict) (\<lambda>debater_x.
     and_then (py_get (JDict debate_history) ''debater_y'' empty_dict) (\<lambda>debater_y.
     and_then (get2 debater_x ''opening'' ''position'' empty_str) (\<lambda>x_pos.
     and_then (get2 debater_x ''opening'' ''argument'' empty_str) (\<lambda>x_arg.
     and_then (get2 debater_x ''rebuttal'' ''rebuttal'' empty_str) (\<lambda>x_reb.
     and_then (get2 debater_y ''opening'' ''position'' empty_str) (\<lambda>y_pos.
     and_then (get2 debater_y ''opening'' ''argument'' empty_str) (\<lambda>y_arg.
     and_then (get2 debater_y ''rebuttal'' ''rebuttal'' empty_str) (\<lambda>y_reb.
       Inr (Prompt ''judge_decision''
             [full_question prompt_context question, ct,
              [Str x_pos], [Str x_arg], [Str x_reb],
              [Str y_pos], [Str y_arg], [Str y_reb]]))))))))))"

definition get_debater_opening_prompt_irac ::
  "string \<Rightarrow> string \<Rightarrow> json list \<Rightarrow> string option \<Rightarrow> py_error + prompt" where
  "get_debater_opening_prompt_irac question prompt_context choices position =
     and_then (choices_text choices) (\<lambda>ct.
       case position of
         None \<Rightarrow> Inr (Prompt ''debater_opening_irac_free''
                        [full_question prompt_context question, ct])
       | Some p \<Rightarrow> Inr (Prompt ''debater_opening_irac_assigned''
                        [full_question prompt_context question, ct, [Lit p], [Lit p], [Lit p]]))"

text \<open>The four IRAC fields of an \<^verbatim>\<open>irac\<close> object, read with \<^verbatim>\<open>.get(key, '')\<close>.\<close>

definition irac_fields :: "json \<Rightarrow> py_error + ptext list" where
  "irac_fields irac =
     and_then (py_get irac ''issue'' empty_str) (\<lambda>i.
     and_then (py_get irac ''rule'' empty_str) (\<lambda>r.
     and_then (py_get irac ''application'' empty_str) (\<lambda>a.
     and_then (py_get irac ''conclusion'' empty_str) (\<lambda>c.
       Inr [ [Str i], [Str r], [Str a], [Str c]]))))"

definition get_debater_rebuttal_prompt_irac ::
  "string \<Rightarrow> string \<Rightarrow> json \<Rightarrow> json \<Rightarrow> dict \<Rightarrow> py_error + prompt" where
  "get_debater_rebuttal_prompt_irac question prompt_context my_position my_opening opponent_opening =
     and_then (py_get (JDict opponent_opening) ''irac'' empty_dict) (\<lambda>opponent_irac.
     and_then (py_get (JDict opponent_opening) ''position'' empty_str) (\<lambda>opponent_pos.
     and_then (irac_fields opponent_irac) (\<lambda>fields.
       Inr (Prompt ''debater_rebuttal_irac''
             ([full_question prompt_context question, [Str my_position], [Str opponent_pos]]
              @ fields @ [ [Str my_position]])))))"

definition get_judge_decision_prompt_irac ::
  "string \<Rightarrow> string \<Rightarrow> json list \<Rightarrow> dict \<Rightarrow> py_error + prompt" where
  "get_judge_decision_prompt_irac question prompt_context choices debate_history =
     and_then (choices_text choices) (\<lambda>ct.
     and_then (py_get (JDict debate_history) ''debater_x'' empty_dict) (\<lambda>debater_x.
     and_then (py_get (JDict debate_history) ''debater_y'' empty_dict) (\<lambda>debater_y.
     and_then (get2 debater_x ''opening'' ''irac'' empty_dict) (\<lambda>x_irac.
     and_then (get2 debater_y ''opening'' ''irac'' empty_dict) (\<lambda>y_irac.
     and_then (get2 debater_x ''rebuttal'' ''rebuttal'' empty_dict) (\<lambda>x_rebuttal.
     and_then (get2 debater_y ''rebuttal'' ''rebuttal'' empty_dict) (\<lambda>y_rebuttal.
     and_then (get2 debater_x ''opening'' ''position'' empty_str) (\<lambda>x_pos.
     and_then (irac_fields x_irac) (\<lambda>x_fields.
     and_then (get2 debater_y ''opening'' ''position'' empty_str) (\<lambda>y_pos.
     and_then (irac_fields y_irac) (\<lambda>y_fields.
       Inr (Prompt ''judge_decision_irac''
             ([full_question prompt_context question, ct, [Str x_pos]] @ x_fields
              @ [ [Str x_rebuttal], [Str y_pos]] @ y_fields
              @ [ [Str y_rebuttal]])))))))))))))"

definition get_judge_decision_prompt_hybrid ::
  "string \<Rightarrow> string \<Rightarrow> json list \<Rightarrow> dict \<Rightarrow> py_error + prompt" where
  "get_judge_decision_prompt_hybrid question prompt_context choices debate_history =
     and_then (choices_text choices) (\<lambda>ct.
     and_then (py_get (JDict debate_history) ''debater_x'' empty_dict) (\<lambda>debater_x.
     and_then (py_get (JDict debate_history) ''debater_y'' empty_dict) (\<lambda>debater_y.
     and_then (get2 debater_x ''opening'' ''position'' empty_str) (\<lambda>x_pos.
     and_then (get2 debater_y ''opening'' ''position'' empty_str) (\<lambda>y_pos.
     and_then (get2 debater_x ''opening'' ''irac'' empty_dict) (\<lambda>x_irac.
     and_then (get2 debater_y ''opening'' ''irac'' empty_dict) (\<lambda>y_irac.
     and_then (get2 debater_x ''rebuttal'' ''rebuttal'' empty_str) (\<lambda>x_rebuttal.
     and_then (get2 debater_y ''rebuttal'' ''rebuttal'' empty_str) (\<lambda>y_rebuttal.
     and_then (irac_fields x_irac) (\<lambda>x_fields.
     and_then (irac_fields y_irac) (\<lambda>y_fields.
       Inr (Prompt ''judge_decision_hybrid''
             ([full_question prompt_context question, ct, [Str x_pos]] @ x_fields
              @ [ [Str y_pos]] @ y_fields
              @ [ [Str x_rebuttal], [Str y_rebuttal],
                 [Str x_pos], [Str y_pos], [Str x_pos], [Str y_pos]])))))))))))))"

subsection \<open>Module \<^verbatim>\<open>src/agents/prompts.py\<close>\<close>

text \<open>
  The older module defines three functions only. Its opening prompt has no
  free-choice branch: \<^verbatim>\<open>None\<close> is formatted like any other position.
\<close>

definition prompts_get_debater_opening_prompt ::
  "string \<Rightarrow> string \<Rightarrow> json list \<Rightarrow> string option \<Rightarrow> py_error + prompt" where
  "prompts_get_debater_opening_prompt question prompt_context choices position =
     and_then (choices_text choices) (\<lambda>ct.
       let p = (case position of None \<Rightarrow> Str JNull | Some s \<Rightarrow> Lit s) in
       Inr (Prompt ''prompts.debater_opening''
             [full_question prompt_context question, ct, [p], [p]]))"

definition prompts_get_debater_rebuttal_prompt ::
  "string \<Rightarrow> string \<Rightarrow> json \<Rightarrow> json \<Rightarrow> dict \<Rightarrow> py_error + prompt" where
  "prompts_get_debater_rebuttal_prompt question prompt_context my_position my_opening opponent_opening =
     and_then (py_get my_opening ''argument'' empty_str) (\<lambda>my_arg.
     and_then (py_get (JDict opponent_opening) ''position'' empty_str) (\<lambda>opp_pos.
     and_then (py_get (JDict opponent_opening) ''argument'' empty_str) (\<lambda>opp_arg.
       Inr (Prompt ''prompts.debater_rebuttal''
             [full_question prompt_context question, [Str my_position], [Str my_arg],
              [Str opp_pos], [Str opp_arg], [Str my_position]]))))"

definition prompts_get_judge_decision_prompt ::
  "string \<Rightarrow> string \<Rightarrow> json list \<Rightarrow> dict \<Rightarrow> py_error + prompt" where
  "prompts_get_judge_decision_prompt question prompt_context choices debate_history =
     and_then (choices_text choices) (\<lambda>ct.
     and_then (py_get (JDict debate_history) ''debater_x'' empty_dict) (\<lambda>debater_x.
     and_then (py_get (JDict debate_history) ''debater_y'' empty_dict) (\<lambda>debater_y.
     and_then (get2 debater_x ''opening'' ''position'' empty_str) (\<lambda>x_pos.
     and_then (get2 debater_x ''opening'' ''argument'' empty_str) (\<lambda>x_arg.
     and_then (get2 debater_x ''rebuttal'' ''rebuttal'' empty_str) (\<lambda>x_reb.
     and_then (get2 debater_y ''opening'' ''position'' empty_str) (\<lambda>y_pos.
     and_then (get2 debater_y ''opening'' ''argument'' empty_str) (\<lambda>y_arg.
     and_then (get2 debater_y ''rebuttal'' ''rebuttal'' empty_str) (\<lambda>y_reb.
       Inr (Prompt ''prompts.judge_decision''
             [full_question prompt_context question, ct,
              [Str x_pos], [Str x_arg], [Str x_reb],
              [Str y_pos], [Str y_arg], [Str y_reb]]))))))))))"

subsection \<open>Imports inside a function body\<close>

text \<open>
  \<^verbatim>\<open>from module import name\<close> inside a method runs when the method is called and
  raises \<^verbatim>\<open>ImportError\<close> when the module does not define the name. A module is the
  association list of the functions it defines; the three signatures of the prompt
  builders are the three constructors.
\<close>

datatype py_function =
    Opening_prompt "string \<Rightarrow> string \<Rightarrow> json list \<Rightarrow> string option \<Rightarrow> py_error + prompt"
  | Rebuttal_prompt "string \<Rightarrow> string \<Rightarrow> json \<Rightarrow> json \<Rightarrow> dict \<Rightarrow> py_error + prompt"
  | Judge_prompt "string \<Rightarrow> string \<Rightarrow> json list \<Rightarrow> dict \<Rightarrow> py_error + prompt"

type_synonym py_module = "string \<times> (string \<times> py_function) list"

definition prompts :: py_module where
  "prompts = (''src.agents.prompts'',
     [(''get_debater_opening_prompt'', Opening_prompt prompts_get_debater_opening_prompt),
      (''get_debater_rebuttal_prompt'', Rebuttal_prompt prompts_get_debater_rebuttal_prompt),
      (''get_judge_decision_prompt'', Judge_prompt prompts_get_judge_decision_prompt)])"

definition prompts_experimental :: py_module where
  "prompts_experimental = (''src.agents.prompts_experimental'',
     [(''get_debater_opening_prompt'', Opening_prompt get_debater_opening_prompt),
      (''get_debater_rebuttal_prompt'', Rebuttal_prompt get_debater_rebuttal_prompt),
      (''get_judge_decision_prompt'', Judge_prompt get_judge_decision_prompt),
      (''get_debater_opening_prompt_irac'', Opening_prompt get_debater_opening_prompt_irac),
      (''get_debater_rebuttal_prompt_irac'', Rebuttal_prompt get_debater_rebuttal_prompt_irac),
      (''get_judge_decision_prompt_irac'', Judge_prompt get_judge_decision_prompt_irac),
      (''get_judge_decision_prompt_hybrid'', Judge_prompt get_judge_decision_prompt_hybrid)])"

definition import_from :: "py_module \<Rightarrow> string \<Rightarrow> py_error + py_function" where
  "import_from m name =
     (case map_of (snd m) name of
        None \<Rightarrow> Inl (ImportError (fst m) name)
      | Some f \<Rightarrow> Inr f)"

text \<open>
  Calling an imported builder with the keyword arguments of another signature is a
  \<^verbatim>\<open>TypeError\<close> of the call.
\<close>

fun as_opening_prompt ::
  "py_function \<Rightarrow> py_error + (string \<Rightarrow> string \<Rightarrow> json list \<Rightarrow> string option \<Rightarrow> py_error + prompt)" where
  "as_opening_prompt (Opening_prompt f) = Inr f"
| "as_opening_prompt g = Inl TypeError"

fun as_rebuttal_prompt ::
  "py_function \<Rightarrow> py_error + (string \<Rightarrow> string \<Rightarrow> json \<Rightarrow> json \<Rightarrow> dict \<Rightarrow> py_error + prompt)" where
  "as_rebuttal_prompt (Rebuttal_prompt f) = Inr f"
| "as_rebuttal_prompt g = Inl TypeError"

fun as_judge_prompt ::
  "py_function \<Rightarrow> py_error + (string \<Rightarrow> string \<Rightarrow> json list \<Rightarrow> dict \<Rightarrow> py_error + prompt)" where
  "as_judge_prompt (Judge_prompt f) = Inr f"
| "as_judge_prompt g = Inl TypeError"

section \<open>The reasoning collaborator\<close>

text \<open>
  Modelled from the spec: the client class \<^verbatim>\<open>GroqClient\<close> of
  \<^verbatim>\<open>src/utils/api_client_experimental.py\<close> is not among the sources. Its
  \<^verbatim>\<open>generate_json(prompt, max_tokens)\<close> is a black box that returns a parsed JSON
  structure or fails. The client is the sequence of outcomes it will give, one per
  call (\<open>Inl\<close> a failure raised by the client, \<open>Inr\<close> the returned object), and the
  log of the calls made so far.
\<close>

record client =
  script :: "nat \<Rightarrow> string + json"
  calls :: "(prompt \<times> nat) list"

definition next_response :: "client \<Rightarrow> string + json" where
  "next_response c = script c (length (calls c))"

definition generate_json :: "client \<Rightarrow> prompt \<Rightarrow> nat \<Rightarrow> (py_error + json) \<times> client" where
  "generate_json c p max_tokens =
     ((case next_response c of Inl m \<Rightarrow> Inl (GenerationError m) | Inr v \<Rightarrow> Inr v),
      c\<lparr>calls := calls c @ [(p, max_tokens)]\<rparr>)"

section \<open>Debater (\<^verbatim>\<open>src/agents/debater_experimental.py\<close>)\<close>

record debater =
  self_client :: client
  self_name :: string
  self_position :: json
  self_opening_argument :: json

definition Debater_init :: "client \<Rightarrow> string \<Rightarrow> debater" where
  "Debater_init c n =
     \<lparr>self_client = c, self_name = n, self_position = JNull, self_opening_argument = JNull\<rparr>"

text \<open>
  Lines 54 to 59 of \<^verbatim>\<open>generate_opening\<close>: the two membership tests of the
  \<^verbatim>\<open>or\<close>, left to right, then \<^verbatim>\<open>response['position']\<close>, which is evaluated
  before the first assignment.
\<close>

definition opening_position :: "json \<Rightarrow> py_error + json" where
  "opening_position response =
     and_then (py_in ''position'' response) (\<lambda>has_position.
       if \<not> has_position then Inl (ValueError (Invalid_debater_response response))
       else and_then (py_in ''argument'' response) (\<lambda>has_argument.
         if \<not> has_argument then Inl (ValueError (Invalid_debater_response response))
         else py_getitem response ''position''))"

definition generate_opening ::
  "debater \<Rightarrow> string \<Rightarrow> string \<Rightarrow> json list \<Rightarrow> string option \<Rightarrow> (py_error + json) \<times> debater" where
  "generate_opening self question prompt_context choices position =
     (case get_debater_opening_prompt question prompt_context choices position of
        Inl e \<Rightarrow> (Inl e, self)
      | Inr prompt \<Rightarrow>
          (case generate_json (self_client self) prompt 750 of
             (Inl e, c) \<Rightarrow> (Inl e, self\<lparr>self_client := c\<rparr>)
           | (Inr response, c) \<Rightarrow>
               (case opening_position response of
                  Inl e \<Rightarrow> (Inl e, self\<lparr>self_client := c\<rparr>)
                | Inr p \<Rightarrow>
                    (Inr response,
                     self\<lparr>self_client := c, self_position := p,
                          self_opening_argument := response\<rparr>))))"

definition generate_rebuttal ::
  "debater \<Rightarrow> string \<Rightarrow> string \<Rightarrow> dict \<Rightarrow> (py_error + json) \<times> debater" where
  "generate_rebuttal self question prompt_context opponent_opening =
     (if \<not> truthy (self_opening_argument self)
      then (Inl (ValueError Must_generate_opening_before_rebuttal), self)
      else
        (case get_debater_rebuttal_prompt question prompt_context (self_position self)
                (self_opening_argument self) opponent_opening of
           Inl e \<Rightarrow> (Inl e, self)
         | Inr prompt \<Rightarrow>
             (case generate_json (self_client self) prompt 650 of
                (Inl e, c) \<Rightarrow> (Inl e, self\<lparr>self_client := c\<rparr>)
              | (Inr response, c) \<Rightarrow>
                  (case py_in ''rebuttal'' response of
                     Inl e \<Rightarrow> (Inl e, self\<lparr>self_client := c\<rparr>)
                   | Inr has_rebuttal \<Rightarrow>
                       if \<not> has_rebuttal
                       then (Inl (ValueError (Invalid_rebuttal_response response)),
                             self\<lparr>self_client := c\<rparr>)
                       else (Inr response, self\<lparr>self_client := c\<rparr>)))))"

text \<open>
  Lines 131 to 143 of \<^verbatim>\<open>generate_opening_irac\<close>: the two membership tests, the
  loop over the four IRAC keys of \<^verbatim>\<open>response.get('irac', {})\<close>, then
  \<^verbatim>\<open>response['position']\<close>.
\<close>

definition irac_keys :: "string list" where
  "irac_keys = [''issue'', ''rule'', ''application'', ''conclusion'']"

definition opening_position_irac :: "json \<Rightarrow> py_error + json" where
  "opening_position_irac response =
     and_then (py_in ''position'' response) (\<lambda>has_position.
       if \<not> has_position then Inl (ValueError (Invalid_IRAC_debater_response response))
       else and_then (py_in ''irac'' response) (\<lambda>has_irac.
         if \<not> has_irac then Inl (ValueError (Invalid_IRAC_debater_response response))
         else and_then (py_get response ''irac'' empty_dict) (\<lambda>irac.
              and_then (require_keys (\<lambda>key. Missing_IRAC_component key response) irac_keys irac)
                (\<lambda>_. py_getitem response ''position''))))"

text \<open>
  Lines 122 to 145, the method after its import statement, with the imported prompt
  builder as a parameter.
\<close>

definition generate_opening_irac_body ::
  "(string \<Rightarrow> string \<Rightarrow> json list \<Rightarrow> string option \<Rightarrow> py_error + prompt) \<Rightarrow>
   debater \<Rightarrow> string \<Rightarrow> string \<Rightarrow> json list \<Rightarrow> string option \<Rightarrow> (py_error + json) \<times> debater" where
  "generate_opening_irac_body builder self question prompt_context choices position =
     (case builder question prompt_context choices position of
        Inl e \<Rightarrow> (Inl e, self)
      | Inr prompt \<Rightarrow>
          (case generate_json (self_client self) prompt 900 of
             (Inl e, c) \<Rightarrow> (Inl e, self\<lparr>self_client := c\<rparr>)
           | (Inr response, c) \<Rightarrow>
               (case opening_position_irac response of
                  Inl e \<Rightarrow> (Inl e, self\<lparr>self_client := c\<rparr>)
                | Inr p \<Rightarrow>
                    (Inr response,
                     self\<lparr>self_client := c, self_position := p,
                          self_opening_argument := response\<rparr>))))"

text \<open>
  Line 120 is \<^verbatim>\<open>from src.agents.prompts import get_debater_opening_prompt_irac\<close>:
  the module named is \<^verbatim>\<open>prompts\<close>, not \<^verbatim>\<open>prompts_experimental\<close>.
\<close>

definition generate_opening_irac ::
  "debater \<Rightarrow> string \<Rightarrow> string \<Rightarrow> json list \<Rightarrow> string option \<Rightarrow> (py_error + json) \<times> debater" where
  "generate_opening_irac self question prompt_context choices position =
     (case and_then (import_from prompts ''get_debater_opening_prompt_irac'') as_opening_prompt of
        Inl e \<Rightarrow> (Inl e, self)
      | Inr builder \<Rightarrow>
          generate_opening_irac_body builder self question prompt_context choices position)"

text \<open>
  Lines 179 to 188 of \<^verbatim>\<open>generate_rebuttal_irac\<close>: the membership test, then the
  loop over the four critique keys of \<^verbatim>\<open>response.get('rebuttal', {})\<close>.
\<close>

definition rebuttal_keys :: "string list" where
  "rebuttal_keys = [''issue_critique'', ''rule_critique'', ''application_critique'',
                    ''my_reinforcement'']"

definition rebuttal_irac_checks :: "json \<Rightarrow> py_error + unit" where
  "rebuttal_irac_checks response =
     and_then (py_in ''rebuttal'' response) (\<lambda>has_rebuttal.
       if \<not> has_rebuttal then Inl (ValueError (Invalid_IRAC_rebuttal_response response))
       else and_then (py_get response ''rebuttal'' empty_dict) (\<lambda>rebuttal.
              require_keys (\<lambda>key. Missing_rebuttal_component key response)
                rebuttal_keys rebuttal))"

definition generate_rebuttal_irac_body ::
  "(string \<Rightarrow> string \<Rightarrow> json \<Rightarrow> json \<Rightarrow> dict \<Rightarrow> py_error + prompt) \<Rightarrow>
   debater \<Rightarrow> string \<Rightarrow> string \<Rightarrow> dict \<Rightarrow> (py_error + json) \<times> debater" where
  "generate_rebuttal_irac_body builder self question prompt_context opponent_opening =
     (case builder question prompt_context (self_position self)
             (self_opening_argument self) opponent_opening of
        Inl e \<Rightarrow> (Inl e, self)
      | Inr prompt \<Rightarrow>
          (case generate_json (self_client self) prompt 700 of
             (Inl e, c) \<Rightarrow> (Inl e, self\<lparr>self_client := c\<rparr>)
           | (Inr response, c) \<Rightarrow>
               (case rebuttal_irac_checks response of
                  Inl e \<Rightarrow> (Inl e, self\<lparr>self_client := c\<rparr>)
                | Inr _ \<Rightarrow> (Inr response, self\<lparr>self_client := c\<rparr>))))"

text \<open>
  The check of line 164 comes first; the import of line 167 names the module
  \<^verbatim>\<open>prompts\<close> as well.
\<close>

definition generate_rebuttal_irac ::
  "debater \<Rightarrow> string \<Rightarrow> string \<Rightarrow> dict \<Rightarrow> (py_error + json) \<times> debater" where
  "generate_rebuttal_irac self question prompt_context opponent_opening =
     (if \<not> truthy (self_opening_argument self)
      then (Inl (ValueError Must_generate_opening_before_rebuttal), self)
      else
        (case and_then (import_from prompts ''get_debater_rebuttal_prompt_irac'')
                as_rebuttal_prompt of
           Inl e \<Rightarrow> (Inl e, self)
         | Inr builder \<Rightarrow>
             generate_rebuttal_irac_body builder self question prompt_context opponent_opening))"

section \<open>Judge (\<^verbatim>\<open>src/agents/judge_experimental.py\<close>)\<close>

record judge =
  judge_client :: client

definition labels :: "json list" where
  "labels = [JStr ''A'', JStr ''B'', JStr ''C'', JStr ''D'']"

text \<open>
  The two checks every variant starts with: \<^verbatim>\<open>'decision' not in response\<close>, then
  \<^verbatim>\<open>response['decision'] not in ['A', 'B', 'C', 'D']\<close>. An object equals a
  \<^verbatim>\<open>str\<close> only when it is that \<^verbatim>\<open>str\<close>, so membership in the list of the four
  literals is membership in \<open>labels\<close>. \<open>missing\<close> is the message of the first check,
  which differs between the variants.
\<close>

definition decision_label :: "(json \<Rightarrow> value_error) \<Rightarrow> json \<Rightarrow> py_error + json" where
  "decision_label missing response =
     and_then (py_in ''decision'' response) (\<lambda>has_decision.
       if \<not> has_decision then Inl (ValueError (missing response))
       else and_then (py_getitem response ''decision'') (\<lambda>decision.
         if decision \<notin> set labels then Inl (ValueError (Invalid_decision_choice decision))
         else Inr decision))"

definition make_decision ::
  "judge \<Rightarrow> string \<Rightarrow> string \<Rightarrow> json list \<Rightarrow> dict \<Rightarrow> (py_error + json) \<times> judge" where
  "make_decision self question prompt_context choices debate_history =
     (case get_judge_decision_prompt question prompt_context choices debate_history of
        Inl e \<Rightarrow> (Inl e, self)
      | Inr prompt \<Rightarrow>
          (case generate_json (judge_client self) prompt 800 of
             (Inl e, c) \<Rightarrow> (Inl e, self\<lparr>judge_client := c\<rparr>)
           | (Inr response, c) \<Rightarrow>
               (case decision_label Invalid_judge_response response of
                  Inl e \<Rightarrow> (Inl e, self\<lparr>judge_client := c\<rparr>)
                | Inr _ \<Rightarrow> (Inr response, self\<lparr>judge_client := c\<rparr>))))"

text \<open>Lines 100 to 116 of \<^verbatim>\<open>make_decision_irac\<close>.\<close>

definition decision_checks_irac :: "json \<Rightarrow> py_error + unit" where
  "decision_checks_irac response =
     and_then (decision_label Invalid_judge_IRAC_response response) (\<lambda>_.
     and_then (py_in ''synthesis'' response) (\<lambda>has_synthesis.
       if \<not> has_synthesis then Inl (ValueError (Missing_synthesis response))
       else and_then (py_get response ''synthesis'' empty_dict) (\<lambda>synthesis.
              require_keys (\<lambda>key. Missing_synthesis_IRAC_component key response)
                irac_keys synthesis)))"

definition make_decision_irac ::
  "judge \<Rightarrow> string \<Rightarrow> string \<Rightarrow> json list \<Rightarrow> dict \<Rightarrow> (py_error + json) \<times> judge" where
  "make_decision_irac self question prompt_context choices debate_history =
     (case and_then (import_from prompts_experimental ''get_judge_decision_prompt_irac'')
             as_judge_prompt of
        Inl e \<Rightarrow> (Inl e, self)
      | Inr builder \<Rightarrow>
          (case builder question prompt_context choices debate_history of
             Inl e \<Rightarrow> (Inl e, self)
           | Inr prompt \<Rightarrow>
               (case generate_json (judge_client self) prompt 1000 of
                  (Inl e, c) \<Rightarrow> (Inl e, self\<lparr>judge_client := c\<rparr>)
                | (Inr response, c) \<Rightarrow>
                    (case decision_checks_irac response of
                       Inl e \<Rightarrow> (Inl e, self\<lparr>judge_client := c\<rparr>)
                     | Inr _ \<Rightarrow> (Inr response, self\<lparr>judge_client := c\<rparr>)))))"

text \<open>
  \<^verbatim>\<open>debate_history.get(side, {}).get('opening', {}).get('position', '')\<close>
\<close>

definition opening_position_of :: "dict \<Rightarrow> string \<Rightarrow> py_error + json" where
  "opening_position_of debate_history side =
     and_then (py_get (JDict debate_history) side empty_dict) (\<lambda>debater.
       get2 debater ''opening'' ''position'' empty_str)"

text \<open>
  Lines 154 to 176 of \<^verbatim>\<open>make_decision_hybrid\<close>. Both positions are looked up
  before the winner is tested. The comparison \<^verbatim>\<open>response['decision'] != pos\<close> has a
  validated label, a \<^verbatim>\<open>str\<close>, on its left, so it is inequality of the two objects.
\<close>

definition decision_checks_hybrid :: "dict \<Rightarrow> json \<Rightarrow> py_error + unit" where
  "decision_checks_hybrid debate_history response =
     and_then (decision_label Invalid_judge_hybrid_response response) (\<lambda>decision.
     and_then (py_get response ''winner'' empty_str) (\<lambda>winner.
     and_then (opening_position_of debate_history ''debater_x'') (\<lambda>debater_x_pos.
     and_then (opening_position_of debate_history ''debater_y'') (\<lambda>debater_y_pos.
       if winner = JStr ''debater_x'' \<and> decision \<noteq> debater_x_pos
       then Inl (ValueError (Decision_doesnt_match_winner ''debater_x'' decision debater_x_pos))
       else if winner = JStr ''debater_y'' \<and> decision \<noteq> debater_y_pos
       then Inl (ValueError (Decision_doesnt_match_winner ''debater_y'' decision debater_y_pos))
       else Inr ()))))"

definition make_decision_hybrid ::
  "judge \<Rightarrow> string \<Rightarrow> string \<Rightarrow> json list \<Rightarrow> dict \<Rightarrow> (py_error + json) \<times> judge" where
  "make_decision_hybrid self question prompt_context choices debate_history =
     (case and_then (import_from prompts_experimental ''get_judge_decision_prompt_hybrid'')
             as_judge_prompt of
        Inl e \<Rightarrow> (Inl e, self)
      | Inr builder \<Rightarrow>
          (case builder question prompt_context choices debate_history of
             Inl e \<Rightarrow> (Inl e, self)
           | Inr prompt \<Rightarrow>
               (case generate_json (judge_client self) prompt 1000 of
                  (Inl e, c) \<Rightarrow> (Inl e, self\<lparr>judge_client := c\<rparr>)
                | (Inr response, c) \<Rightarrow>
                    (case decision_checks_hybrid debate_history response of
                       Inl e \<Rightarrow> (Inl e, self\<lparr>judge_client := c\<rparr>)
                     | Inr _ \<Rightarrow> (Inr response, self\<lparr>judge_client := c\<rparr>)))))"

section \<open>Histories of a Debater\<close>

text \<open>
  The four methods a caller can invoke on a Debater, and a run of such calls from
  some state. A caller may catch an exception and go on, so a run records the
  outcome of every call and continues with the state the call left.
\<close>

datatype debater_call =
    Call_generate_opening string string "json list" "string option"
  | Call_generate_opening_irac string string "json list" "string option"
  | Call_generate_rebuttal string string dict
  | Call_generate_rebuttal_irac string string dict

fun call_debater :: "debater \<Rightarrow> debater_call \<Rightarrow> (py_error + json) \<times> debater" where
  "call_debater self (Call_generate_opening q pc ch pos) = generate_opening self q pc ch pos"
| "call_debater self (Call_generate_opening_irac q pc ch pos) =
     generate_opening_irac self q pc ch pos"
| "call_debater self (Call_generate_rebuttal q pc opp) = generate_rebuttal self q pc opp"
| "call_debater self (Call_generate_rebuttal_irac q pc opp) =
     generate_rebuttal_irac self q pc opp"

fun run_calls ::
  "debater \<Rightarrow> debater_call list \<Rightarrow> (debater_call \<times> (py_error + json)) list \<times> debater" where
  "run_calls self [] = ([], self)"
| "run_calls self (c # cs) =
     (case call_debater self c of
        (r, self') \<Rightarrow>
          (case run_calls self' cs of (trace, final) \<Rightarrow> ((c, r) # trace, final)))"

fun is_opening_call :: "debater_call \<Rightarrow> bool" where
  "is_opening_call (Call_generate_opening q pc ch pos) = True"
| "is_opening_call (Call_generate_opening_irac q pc ch pos) = True"
| "is_opening_call c = False"

definition no_opening_succeeded :: "(debater_call \<times> (py_error + json)) list \<Rightarrow> bool" where
  "no_opening_succeeded trace = list_all (\<lambda>(c, r). is_opening_call c \<longrightarrow> isl r) trace"

section \<open>Reading a transcript and a decision payload\<close>

text \<open>
  The position that the opening of one side of the transcript carries, if the side,
  its opening and the position are all there.
\<close>

definition stored_position :: "dict \<Rightarrow> string \<Rightarrow> json option" where
  "stored_position debate_history side =
     (case map_of debate_history side of
        Some (JDict debater) \<Rightarrow>
          (case map_of debater ''opening'' of
             Some (JDict opening) \<Rightarrow> map_of opening ''position''
           | _ \<Rightarrow> None)
      | _ \<Rightarrow> None)"

text \<open>The payload has a \<^verbatim>\<open>decision\<close> field and it is one of the four labels.\<close>

definition valid_decision :: "dict \<Rightarrow> bool" where
  "valid_decision response =
     (case map_of response ''decision'' of None \<Rightarrow> False | Some d \<Rightarrow> d \<in> set labels)"

text \<open>
  The payload has a \<^verbatim>\<open>synthesis\<close> field, a mapping with the four IRAC keys.
\<close>

definition complete_synthesis :: "dict \<Rightarrow> bool" where
  "complete_synthesis response =
     (case map_of response ''synthesis'' of
        Some (JDict synthesis) \<Rightarrow> list_all (\<lambda>key. map_of synthesis key \<noteq> None) irac_keys
      | _ \<Rightarrow> False)"

text \<open>
  The structure the docstrings of the Judge give for \<^verbatim>\<open>debate_history\<close>: each side,
  where present, is a mapping whose \<^verbatim>\<open>opening\<close> and \<^verbatim>\<open>rebuttal\<close>, where present,
  are mappings, and the \<^verbatim>\<open>irac\<close> of an opening, where present, is a mapping.
\<close>

fun mapping_or_absent :: "json option \<Rightarrow> bool" where
  "mapping_or_absent None = True"
| "mapping_or_absent (Some (JDict m)) = True"
| "mapping_or_absent (Some v) = False"

fun opening_shaped :: "json option \<Rightarrow> bool" where
  "opening_shaped None = True"
| "opening_shaped (Some (JDict opening)) = mapping_or_absent (map_of opening ''irac'')"
| "opening_shaped (Some v) = False"

fun side_shaped :: "json option \<Rightarrow> bool" where
  "side_shaped None = True"
| "side_shaped (Some (JDict debater)) =
     (opening_shaped (map_of debater ''opening'') \<and>
      mapping_or_absent (map_of debater ''rebuttal''))"
| "side_shaped (Some v) = False"

definition debate_history_shaped :: "dict \<Rightarrow> bool" where
  "debate_history_shaped debate_history =
     (side_shaped (map_of debate_history ''debater_x'') \<and>
      side_shaped (map_of debate_history ''debater_y''))"

section \<open>Example data\<close>

text \<open>A mock collaborator that answers every call with the same payload.\<close>

definition fixed_response :: "json \<Rightarrow> nat \<Rightarrow> string + json" where
  "fixed_response v n = Inr v"

definition mock_client :: "json \<Rightarrow> client" where
  "mock_client v = \<lparr>script = fixed_response v, calls = []\<rparr>"

definition example_choices :: "json list" where
  "example_choices = [JStr ''X wins'', JStr ''Y wins'', JStr ''Z wins'', JStr ''W wins'']"

definition example_irac :: json where
  "example_irac = JDict [(''issue'', JStr ''i''), (''rule'', JStr ''r''),
                         (''application'', JStr ''a''), (''conclusion'', JStr ''c'')]"

text \<open>A transcript in which debater X defends A and debater Y defends B.\<close>

definition example_history :: dict where
  "example_history =
     [(''debater_x'',
         JDict [(''opening'', JDict [(''position'', JStr ''A''), (''argument'', JStr ''ax''),
                                     (''irac'', example_irac)]),
                (''rebuttal'', JDict [(''rebuttal'', JStr ''rx'')])]),
      (''debater_y'',
         JDict [(''opening'', JDict [(''position'', JStr ''B''), (''argument'', JStr ''ay''),
                                     (''irac'', example_irac)]),
                (''rebuttal'', JDict [(''rebuttal'', JStr ''ry'')])])]"

definition example_decision :: "string \<Rightarrow> string \<Rightarrow> dict" where
  "example_decision winner decision =
     [(''winner'', JStr winner), (''decision'', JStr decision),
      (''rationale'', JStr ''why''), (''synthesis'', JStr ''so'')]"

definition example_irac_decision :: "string \<Rightarrow> string \<Rightarrow> dict" where
  "example_irac_decision winner decision =
     [(''winner'', JStr winner), (''decision'', JStr decision),
      (''rationale'', JStr ''why''), (''synthesis'', example_irac)]"

text \<open>Openings a collaborator may return: a vanilla one and IRAC ones.\<close>

definition example_opening :: "string \<Rightarrow> json" where
  "example_opening p = JDict [(''position'', JStr p), (''argument'', JStr ''because''),
                              (''citations'', JList [])]"

definition example_opening_no_argument :: json where
  "example_opening_no_argument = JDict [(''position'', JStr ''A''), (''citations'', JList [])]"

definition example_opening_irac :: "string list \<Rightarrow> json" where
  "example_opening_irac keys =
     JDict [(''position'', JStr ''A''), (''irac'', JDict (map (\<lambda>k. (k, JStr ''text'')) keys)),
            (''citations'', JList [])]"

text \<open>
  A Debater whose earlier opening stored position B, now facing a collaborator that
  returns \<open>v\<close>.
\<close>

definition example_debater :: "json \<Rightarrow> debater" where
  "example_debater v =
     \<lparr>self_client = mock_client v, self_name = ''debater_x'', self_position = JStr ''B'',
      self_opening_argument = example_opening ''B''\<rparr>"

text \<open>
  Calls on a fresh Debater in which no opening succeeds: the IRAC opening, a vanilla
  opening and a rebuttal.
\<close>

definition example_failed_calls :: "debater_call list" where
  "example_failed_calls =
     [Call_generate_opening_irac ''q'' ''ctx'' example_choices (Some ''A''),
      Call_generate_opening ''q'' ''ctx'' example_choices (Some ''A''),
      Call_generate_rebuttal ''q'' ''ctx'' []]"

text \<open>A decision payload with a valid label and no \<^verbatim>\<open>synthesis\<close> field.\<close>

definition example_decision_no_synthesis :: dict where
  "example_decision_no_synthesis =
     [(''winner'', JStr ''debater_x''), (''decision'', JStr ''A''), (''rationale'', JStr ''why'')]"

definition example_judge :: "dict \<Rightarrow> judge" where
  "example_judge payload = \<lparr>judge_client = mock_client (JDict payload)\<rparr>"

section \<open>Basic facts\<close>

lemma and_then_Inl [simp]: "and_then (Inl e) f = Inl e"
  by (simp add: and_then_def)

lemma and_then_Inr [simp]: "and_then (Inr v) f = f v"
  by (simp add: and_then_def)

lemma not_isl_Inr: "\<not> isl m \<Longrightarrow> \<exists>v. m = Inr v"
  by (cases m) simp_all

lemma generate_json_Inr:
  "next_response c = Inr v \<Longrightarrow> generate_json c p n = (Inr v, c\<lparr>calls := calls c @ [(p, n)]\<rparr>)"
  by (simp add: generate_json_def)

lemma next_response_mock: "next_response (mock_client v) = Inr v"
  by (simp add: next_response_def mock_client_def fixed_response_def)

text \<open>
  What the imports inside the methods find: \<^verbatim>\<open>prompts.py\<close> defines neither IRAC
  builder of the Debater; \<^verbatim>\<open>prompts_experimental.py\<close> defines both builders of the
  Judge.
\<close>

lemma import_opening_irac:
  "and_then (import_from prompts ''get_debater_opening_prompt_irac'') as_opening_prompt
   = Inl (ImportError ''src.agents.prompts'' ''get_debater_opening_prompt_irac'')"
  by (simp add: import_from_def prompts_def)

lemma import_rebuttal_irac:
  "and_then (import_from prompts ''get_debater_rebuttal_prompt_irac'') as_rebuttal_prompt
   = Inl (ImportError ''src.agents.prompts'' ''get_debater_rebuttal_prompt_irac'')"
  by (simp add: import_from_def prompts_def)

lemma import_judge_irac:
  "and_then (import_from prompts_experimental ''get_judge_decision_prompt_irac'') as_judge_prompt
   = Inr get_judge_decision_prompt_irac"
  by (simp add: import_from_def prompts_experimental_def)

lemma import_judge_hybrid:
  "and_then (import_from prompts_experimental ''get_judge_decision_prompt_hybrid'') as_judge_prompt
   = Inr get_judge_decision_prompt_hybrid"
  by (simp add: import_from_def prompts_experimental_def)

lemma decision_label_dict:
  "decision_label missing (JDict r) =
     (case map_of r ''decision'' of
        None \<Rightarrow> Inl (ValueError (missing (JDict r)))
      | Some d \<Rightarrow> if d \<in> set labels then Inr d else Inl (ValueError (Invalid_decision_choice d)))"
  by (simp add: decision_label_def split: option.splits)

lemma decision_label_valid:
  "valid_decision r \<Longrightarrow> \<exists>d. map_of r ''decision'' = Some d \<and> d \<in> set labels \<and> decision_label missing (JDict r) = Inr d"
  by (auto simp: valid_decision_def decision_label_dict split: option.splits)

lemma require_keys_dict:
  "require_keys err keys (JDict s) =
     (case find (\<lambda>k. map_of s k = None) keys of
        None \<Rightarrow> Inr ()
      | Some k \<Rightarrow> Inl (ValueError (err k)))"
  by (induction keys) simp_all

text \<open>The outcome of a decision call, without the Judge it leaves behind.\<close>

lemma make_decision_fst:
  "fst (make_decision self q pc ch h) =
     and_then (get_judge_decision_prompt q pc ch h) (\<lambda>p.
     and_then (case next_response (judge_client self) of
                 Inl m \<Rightarrow> Inl (GenerationError m) | Inr v \<Rightarrow> Inr v) (\<lambda>response.
     and_then (decision_label Invalid_judge_response response) (\<lambda>_. Inr response)))"
proof (cases "get_judge_decision_prompt q pc ch h")
  case (Inl e)
  then show ?thesis
    by (simp add: make_decision_def)
next
  case (Inr p)
  show ?thesis
  proof (cases "next_response (judge_client self)")
    case (Inl m)
    then show ?thesis
      by (simp add: make_decision_def Inr generate_json_def)
  next
    case resp: (Inr response)
    then show ?thesis
      by (cases "decision_label Invalid_judge_response response")
        (simp_all add: make_decision_def Inr generate_json_def)
  qed
qed

lemma make_decision_irac_fst:
  "fst (make_decision_irac self q pc ch h) =
     and_then (get_judge_decision_prompt_irac q pc ch h) (\<lambda>p.
     and_then (case next_response (judge_client self) of
                 Inl m \<Rightarrow> Inl (GenerationError m) | Inr v \<Rightarrow> Inr v) (\<lambda>response.
     and_then (decision_checks_irac response) (\<lambda>_. Inr response)))"
proof (cases "get_judge_decision_prompt_irac q pc ch h")
  case (Inl e)
  then show ?thesis
    by (simp add: make_decision_irac_def import_judge_irac)
next
  case (Inr p)
  show ?thesis
  proof (cases "next_response (judge_client self)")
    case (Inl m)
    then show ?thesis
      by (simp add: make_decision_irac_def import_judge_irac Inr generate_json_def)
  next
    case resp: (Inr response)
    then show ?thesis
      by (cases "decision_checks_irac response")
        (simp_all add: make_decision_irac_def import_judge_irac Inr generate_json_def)
  qed
qed

lemma make_decision_hybrid_fst:
  "fst (make_decision_hybrid self q pc ch h) =
     and_then (get_judge_decision_prompt_hybrid q pc ch h) (\<lambda>p.
     and_then (case next_response (judge_client self) of
                 Inl m \<Rightarrow> Inl (GenerationError m) | Inr v \<Rightarrow> Inr v) (\<lambda>response.
     and_then (decision_checks_hybrid h response) (\<lambda>_. Inr response)))"
proof (cases "get_judge_decision_prompt_hybrid q pc ch h")
  case (Inl e)
  then show ?thesis
    by (simp add: make_decision_hybrid_def import_judge_hybrid)
next
  case (Inr p)
  show ?thesis
  proof (cases "next_response (judge_client self)")
    case (Inl m)
    then show ?thesis
      by (simp add: make_decision_hybrid_def import_judge_hybrid Inr generate_json_def)
  next
    case resp: (Inr response)
    then show ?thesis
      by (cases "decision_checks_hybrid h response")
        (simp_all add: make_decision_hybrid_def import_judge_hybrid Inr generate_json_def)
  qed
qed

lemma stored_position_opening:
  "stored_position h side = Some p \<Longrightarrow> opening_position_of h side = Inr p"
  by (auto simp: stored_position_def opening_position_of_def get2_def empty_dict_def
      split: option.splits json.splits)

lemma prompt_hybrid_positions:
  assumes "\<not> isl (get_judge_decision_prompt_hybrid q pc ch h)"
  shows "\<not> isl (opening_position_of h ''debater_x'') \<and> \<not> isl (opening_position_of h ''debater_y'')"
  using assms
  by (auto simp: get_judge_decision_prompt_hybrid_def opening_position_of_def and_then_def
      split: sum.splits)

section \<open>Transcripts the prompt builders accept\<close>

text \<open>
  The prompt builders of the Judge read the transcript with chains of \<^verbatim>\<open>.get\<close>,
  which raise on an entry that is not a mapping, and number the choices with
  \<^verbatim>\<open>chr\<close>. A transcript of the documented structure with at most 1114047
  choices is accepted by all three.
\<close>

lemma get_mapping_or_absent:
  "mapping_or_absent (map_of d k) \<Longrightarrow> \<exists>m. py_get (JDict d) k empty_dict = Inr (JDict m)"
  by (cases "map_of d k" rule: mapping_or_absent.cases) (simp_all add: empty_dict_def)

lemma get2_mapping:
  "mapping_or_absent (map_of d k1) \<Longrightarrow> \<exists>v. get2 (JDict d) k1 k2 dflt = Inr v"
  using get_mapping_or_absent [of d k1] by (auto simp: get2_def)

lemma opening_shaped_mapping:
  "opening_shaped v \<Longrightarrow> mapping_or_absent v"
  by (cases v rule: opening_shaped.cases) simp_all

lemma opening_shaped_irac:
  assumes "opening_shaped (map_of d ''opening'')"
  shows "\<exists>m. get2 (JDict d) ''opening'' ''irac'' empty_dict = Inr (JDict m)"
proof (cases "map_of d ''opening''")
  case None
  then show ?thesis
    by (simp add: get2_def empty_dict_def)
next
  case (Some v)
  show ?thesis
  proof (cases v)
    case (JDict fields)
    with assms Some have "mapping_or_absent (map_of fields ''irac'')"
      by simp
    then obtain m where "py_get (JDict fields) ''irac'' empty_dict = Inr (JDict m)"
      using get_mapping_or_absent by blast
    with Some JDict show ?thesis
      by (simp add: get2_def)
  qed (use assms Some in simp_all)
qed

lemma side_shaped_get:
  assumes "side_shaped (map_of h side)"
  shows "\<exists>d. py_get (JDict h) side empty_dict = Inr (JDict d) \<and>
             opening_shaped (map_of d ''opening'') \<and>
             mapping_or_absent (map_of d ''rebuttal'')"
proof (cases "map_of h side")
  case None
  then show ?thesis
    by (simp add: empty_dict_def)
next
  case (Some v)
  with assms show ?thesis
    by (cases v) simp_all
qed

text \<open>What the three prompt builders of the Judge read from one side.\<close>

lemma side_reads:
  assumes "side_shaped (map_of h side)"
  shows "\<exists>d. py_get (JDict h) side empty_dict = Inr d \<and>
           (\<forall>k dflt. \<exists>v. get2 d ''opening'' k dflt = Inr v) \<and>
           (\<forall>k dflt. \<exists>v. get2 d ''rebuttal'' k dflt = Inr v) \<and>
           (\<exists>m. get2 d ''opening'' ''irac'' empty_dict = Inr (JDict m))"
proof -
  obtain d where d: "py_get (JDict h) side empty_dict = Inr (JDict d)"
    and o: "opening_shaped (map_of d ''opening'')"
    and r: "mapping_or_absent (map_of d ''rebuttal'')"
    using side_shaped_get [OF assms] by blast
  have "\<exists>v. get2 (JDict d) ''opening'' k dflt = Inr v" for k dflt
    using get2_mapping [OF opening_shaped_mapping [OF o]] .
  moreover have "\<exists>v. get2 (JDict d) ''rebuttal'' k dflt = Inr v" for k dflt
    using get2_mapping [OF r] .
  ultimately show ?thesis
    using d opening_shaped_irac [OF o] by blast
qed

lemma shaped_history_accepted:
  assumes choices: "length choices \<le> 1114047" and shaped: "debate_history_shaped h"
  shows "\<not> isl (get_judge_decision_prompt q pc choices h)"
    and "\<not> isl (get_judge_decision_prompt_irac q pc choices h)"
    and "\<not> isl (get_judge_decision_prompt_hybrid q pc choices h)"
proof -
  obtain ct where ct: "choices_text choices = Inr ct"
    using choices by (simp add: choices_text_def)
  obtain x where x: "py_get (JDict h) ''debater_x'' empty_dict = Inr x"
    and xo: "\<And>k dflt. \<exists>v. get2 x ''opening'' k dflt = Inr v"
    and xr: "\<And>k dflt. \<exists>v. get2 x ''rebuttal'' k dflt = Inr v"
    and xi: "\<exists>m. get2 x ''opening'' ''irac'' empty_dict = Inr (JDict m)"
    using side_reads [of h "''debater_x''"] shaped
    unfolding debate_history_shaped_def by blast
  obtain y where y: "py_get (JDict h) ''debater_y'' empty_dict = Inr y"
    and yo: "\<And>k dflt. \<exists>v. get2 y ''opening'' k dflt = Inr v"
    and yr: "\<And>k dflt. \<exists>v. get2 y ''rebuttal'' k dflt = Inr v"
    and yi: "\<exists>m. get2 y ''opening'' ''irac'' empty_dict = Inr (JDict m)"
    using side_reads [of h "''debater_y''"] shaped
    unfolding debate_history_shaped_def by blast
  obtain xp xa xrb yp ya yrb where v:
    "get2 x ''opening'' ''position'' empty_str = Inr xp"
    "get2 x ''opening'' ''argument'' empty_str = Inr xa"
    "get2 x ''rebuttal'' ''rebuttal'' empty_str = Inr xrb"
    "get2 y ''opening'' ''position'' empty_str = Inr yp"
    "get2 y ''opening'' ''argument'' empty_str = Inr ya"
    "get2 y ''rebuttal'' ''rebuttal'' empty_str = Inr yrb"
    using xo xr yo yr by metis
  obtain xrd yrd where rd:
    "get2 x ''rebuttal'' ''rebuttal'' empty_dict = Inr xrd"
    "get2 y ''rebuttal'' ''rebuttal'' empty_dict = Inr yrd"
    using xr yr by metis
  obtain xm ym where i:
    "get2 x ''opening'' ''irac'' empty_dict = Inr (JDict xm)"
    "get2 y ''opening'' ''irac'' empty_dict = Inr (JDict ym)"
    using xi yi by blast
  show "\<not> isl (get_judge_decision_prompt q pc choices h)"
    unfolding get_judge_decision_prompt_def ct x y v and_then_Inr by simp
  show "\<not> isl (get_judge_decision_prompt_irac q pc choices h)"
    unfolding get_judge_decision_prompt_irac_def ct x y v rd i and_then_Inr
    by (simp add: irac_fields_def)
  show "\<not> isl (get_judge_decision_prompt_hybrid q pc choices h)"
    unfolding get_judge_decision_prompt_hybrid_def ct x y v i and_then_Inr
    by (simp add: irac_fields_def)
qed

lemma example_history_shaped: "debate_history_shaped example_history"
  by (simp add: debate_history_shaped_def example_history_def example_irac_def)

text \<open>The example transcript and choices are accepted by the hybrid prompt builder.\<close>

lemma example_choices_text: "\<not> isl (choices_text example_choices)"
  by (simp add: choices_text_def example_choices_def)

lemma example_prompt_hybrid:
  "\<not> isl (get_judge_decision_prompt_hybrid ''q'' ''ctx'' example_choices example_history)"
proof -
  obtain ct where ct: "choices_text example_choices = Inr ct"
    using example_choices_text not_isl_Inr by blast
  show ?thesis
    by (simp add: get_judge_decision_prompt_hybrid_def ct example_history_def get2_def
        empty_dict_def empty_str_def irac_fields_def example_irac_def)
qed

lemma example_stored_x: "stored_position example_history ''debater_x'' = Some (JStr ''A'')"
  by (simp add: stored_position_def example_history_def)

lemma example_stored_y: "stored_position example_history ''debater_y'' = Some (JStr ''B'')"
  by (simp add: stored_position_def example_history_def)

section \<open>The hybrid decision\<close>

text \<open>
  Claim C1. Hybrid decision, for a transcript the prompt builder accepts whose two
  openings carry positions, and a payload with a valid decision label that names
  \<^verbatim>\<open>debater_x\<close> (respectively \<^verbatim>\<open>debater_y\<close>) as winner: when the decision
  differs from the position stored in that debater's opening the call fails with a
  ConsistencyError; when it equals that position the call succeeds and returns the
  payload.
\<close>

theorem hybrid_decision_consistency:
  assumes prompt: "\<not> isl (get_judge_decision_prompt_hybrid question prompt_context choices debate_history)"
    and x: "stored_position debate_history ''debater_x'' = Some x_pos"
    and y: "stored_position debate_history ''debater_y'' = Some y_pos"
    and resp: "next_response (judge_client self) = Inr (JDict response)"
    and dec: "map_of response ''decision'' = Some decision" "decision \<in> set labels"
    and win: "map_of response ''winner'' = Some (JStr winner)"
    and side: "(winner = ''debater_x'' \<and> pos = x_pos) \<or> (winner = ''debater_y'' \<and> pos = y_pos)"
  shows "(decision \<noteq> pos \<longrightarrow>
            (\<exists>e. fst (make_decision_hybrid self question prompt_context choices debate_history) = Inl e
                 \<and> spec_error_class e = ConsistencyError)) \<and>
         (decision = pos \<longrightarrow>
            fst (make_decision_hybrid self question prompt_context choices debate_history)
              = Inr (JDict response))"
proof -
  obtain p where p: "get_judge_decision_prompt_hybrid question prompt_context choices debate_history = Inr p"
    using prompt not_isl_Inr by blast
  have lab: "decision_label Invalid_judge_hybrid_response (JDict response) = Inr decision"
    using dec by (simp add: decision_label_dict)
  have w: "py_get (JDict response) ''winner'' empty_str = Inr (JStr winner)"
    using win by simp
  have px: "opening_position_of debate_history ''debater_x'' = Inr x_pos"
    by (rule stored_position_opening [OF x])
  have py: "opening_position_of debate_history ''debater_y'' = Inr y_pos"
    by (rule stored_position_opening [OF y])
  have checks: "decision_checks_hybrid debate_history (JDict response) =
      (if JStr winner = JStr ''debater_x'' \<and> decision \<noteq> x_pos
       then Inl (ValueError (Decision_doesnt_match_winner ''debater_x'' decision x_pos))
       else if JStr winner = JStr ''debater_y'' \<and> decision \<noteq> y_pos
       then Inl (ValueError (Decision_doesnt_match_winner ''debater_y'' decision y_pos))
       else Inr ())"
    unfolding decision_checks_hybrid_def lab w px py and_then_Inr ..
  have fst_eq: "fst (make_decision_hybrid self question prompt_context choices debate_history) =
      and_then (decision_checks_hybrid debate_history (JDict response)) (\<lambda>_. Inr (JDict response))"
    by (simp add: make_decision_hybrid_fst p resp)
  from side show ?thesis
  proof
    assume "winner = ''debater_x'' \<and> pos = x_pos"
    then show ?thesis
      unfolding fst_eq checks by simp
  next
    assume a: "winner = ''debater_y'' \<and> pos = y_pos"
    then have "JStr winner \<noteq> JStr ''debater_x''"
      by simp
    then show ?thesis
      unfolding fst_eq checks using a by simp
  qed
qed

text \<open>
  The transcript of the specification's test (X defends A, Y defends B) with the four
  payloads: winner X with decision B fails, with A succeeds; winner Y with A fails,
  with B succeeds.
\<close>

theorem hybrid_decision_consistency_witness:
  "(\<exists>e. fst (make_decision_hybrid
              \<lparr>judge_client = mock_client (JDict (example_decision ''debater_x'' ''B''))\<rparr>
              ''q'' ''ctx'' example_choices example_history) = Inl e
        \<and> spec_error_class e = ConsistencyError) \<and>
   fst (make_decision_hybrid
          \<lparr>judge_client = mock_client (JDict (example_decision ''debater_x'' ''A''))\<rparr>
          ''q'' ''ctx'' example_choices example_history)
     = Inr (JDict (example_decision ''debater_x'' ''A'')) \<and>
   (\<exists>e. fst (make_decision_hybrid
              \<lparr>judge_client = mock_client (JDict (example_decision ''debater_y'' ''A''))\<rparr>
              ''q'' ''ctx'' example_choices example_history) = Inl e
        \<and> spec_error_class e = ConsistencyError) \<and>
   fst (make_decision_hybrid
          \<lparr>judge_client = mock_client (JDict (example_decision ''debater_y'' ''B''))\<rparr>
          ''q'' ''ctx'' example_choices example_history)
     = Inr (JDict (example_decision ''debater_y'' ''B''))"
proof -
  have resp: "next_response (judge_client \<lparr>judge_client = mock_client (JDict (example_decision w d))\<rparr>)
      = Inr (JDict (example_decision w d))" for w d
    by (simp add: next_response_mock)
  have dec: "map_of (example_decision w d) ''decision'' = Some (JStr d)" for w d
    by (simp add: example_decision_def)
  have win: "map_of (example_decision w d) ''winner'' = Some (JStr w)" for w d
    by (simp add: example_decision_def)
  have A: "JStr ''A'' \<in> set labels" and B: "JStr ''B'' \<in> set labels"
    by (simp_all add: labels_def)
  note inst = hybrid_decision_consistency [OF example_prompt_hybrid example_stored_x
      example_stored_y resp dec _ win]
  have xB: "''debater_x'' = ''debater_x'' \<and> JStr ''A'' = JStr ''A'' \<or>
            ''debater_x'' = ''debater_y'' \<and> JStr ''A'' = JStr ''B''"
    by simp
  have yB: "''debater_y'' = ''debater_x'' \<and> JStr ''B'' = JStr ''A'' \<or>
            ''debater_y'' = ''debater_y'' \<and> JStr ''B'' = JStr ''B''"
    by simp
  show ?thesis
    using inst [OF B xB] inst [OF A xB] inst [OF A yB] inst [OF B yB] by simp
qed

text \<open>
  Claim C9. Hybrid decision, for a transcript the prompt builder accepts and a payload
  with a valid decision label: when the \<^verbatim>\<open>winner\<close> field is anything but exactly
  \<^verbatim>\<open>'debater_x'\<close> or \<^verbatim>\<open>'debater_y'\<close> (absent, empty, \<^verbatim>\<open>'tie'\<close>, another
  string, not a string), the call succeeds and returns the payload: no consistency
  check is made and the winner is not validated.
\<close>

theorem hybrid_decision_other_winner:
  assumes prompt: "\<not> isl (get_judge_decision_prompt_hybrid question prompt_context choices debate_history)"
    and resp: "next_response (judge_client self) = Inr (JDict response)"
    and dec: "valid_decision response"
    and win: "map_of response ''winner'' \<noteq> Some (JStr ''debater_x'')"
             "map_of response ''winner'' \<noteq> Some (JStr ''debater_y'')"
  shows "fst (make_decision_hybrid self question prompt_context choices debate_history)
           = Inr (JDict response)"
proof -
  obtain p where p: "get_judge_decision_prompt_hybrid question prompt_context choices debate_history = Inr p"
    using prompt not_isl_Inr by blast
  obtain d where lab: "decision_label Invalid_judge_hybrid_response (JDict response) = Inr d"
    using decision_label_valid [OF dec] by blast
  obtain px py where pos: "opening_position_of debate_history ''debater_x'' = Inr px"
      "opening_position_of debate_history ''debater_y'' = Inr py"
    using prompt_hybrid_positions [OF prompt] not_isl_Inr by blast
  have w: "py_get (JDict response) ''winner'' empty_str \<noteq> Inr (JStr ''debater_x'')"
       "py_get (JDict response) ''winner'' empty_str \<noteq> Inr (JStr ''debater_y'')"
    using win by (auto simp: empty_str_def split: option.splits)
  have "decision_checks_hybrid debate_history (JDict response) = Inr ()"
    using w by (auto simp: decision_checks_hybrid_def lab pos and_then_def split: sum.splits)
  then show ?thesis
    by (simp add: make_decision_hybrid_fst p resp)
qed

theorem hybrid_decision_other_winner_witness:
  "fst (make_decision_hybrid
          \<lparr>judge_client = mock_client (JDict (example_decision ''tie'' ''C''))\<rparr>
          ''q'' ''ctx'' example_choices example_history)
     = Inr (JDict (example_decision ''tie'' ''C''))"
proof -
  have resp: "next_response (judge_client \<lparr>judge_client = mock_client (JDict (example_decision ''tie'' ''C''))\<rparr>)
      = Inr (JDict (example_decision ''tie'' ''C''))"
    by (simp add: next_response_mock)
  have dec: "valid_decision (example_decision ''tie'' ''C'')"
    by (simp add: valid_decision_def example_decision_def labels_def)
  have win: "map_of (example_decision ''tie'' ''C'') ''winner'' \<noteq> Some (JStr ''debater_x'')"
       "map_of (example_decision ''tie'' ''C'') ''winner'' \<noteq> Some (JStr ''debater_y'')"
    by (simp_all add: example_decision_def)
  show ?thesis
    by (rule hybrid_decision_other_winner [OF example_prompt_hybrid resp dec win])
qed

section \<open>The vanilla and IRAC decisions\<close>

lemma decision_checks_irac_dict:
  "decision_checks_irac (JDict r) =
     and_then (decision_label Invalid_judge_IRAC_response (JDict r)) (\<lambda>_.
       case map_of r ''synthesis'' of
         None \<Rightarrow> Inl (ValueError (Missing_synthesis (JDict r)))
       | Some synthesis \<Rightarrow>
           require_keys (\<lambda>key. Missing_synthesis_IRAC_component key (JDict r))
             irac_keys synthesis)"
  by (cases "decision_label Invalid_judge_IRAC_response (JDict r)")
    (simp_all add: decision_checks_irac_def split: option.splits)

lemma decision_label_invalid:
  "\<not> valid_decision r \<Longrightarrow>
   \<exists>v. decision_label missing (JDict r) = Inl (ValueError v) \<and>
       (v = missing (JDict r) \<or> (\<exists>d. v = Invalid_decision_choice d))"
  by (auto simp: valid_decision_def decision_label_dict split: option.splits)

lemma complete_synthesis_find:
  "map_of r ''synthesis'' = Some (JDict s) \<Longrightarrow>
   complete_synthesis r \<longleftrightarrow> find (\<lambda>k. map_of s k = None) irac_keys = None"
  by (auto simp: complete_synthesis_def find_None_iff list_all_iff)

lemma make_decision_dict:
  assumes "\<not> isl (get_judge_decision_prompt q pc ch h)"
    and "next_response (judge_client self) = Inr (JDict r)"
  shows "fst (make_decision self q pc ch h)
           = and_then (decision_label Invalid_judge_response (JDict r)) (\<lambda>_. Inr (JDict r))"
proof -
  obtain p where "get_judge_decision_prompt q pc ch h = Inr p"
    using assms(1) not_isl_Inr by blast
  then show ?thesis
    by (simp add: make_decision_fst assms(2))
qed

lemma make_decision_irac_dict:
  assumes "\<not> isl (get_judge_decision_prompt_irac q pc ch h)"
    and "next_response (judge_client self) = Inr (JDict r)"
  shows "fst (make_decision_irac self q pc ch h)
           = and_then (decision_checks_irac (JDict r)) (\<lambda>_. Inr (JDict r))"
proof -
  obtain p where "get_judge_decision_prompt_irac q pc ch h = Inr p"
    using assms(1) not_isl_Inr by blast
  then show ?thesis
    by (simp add: make_decision_irac_fst assms(2))
qed

lemma vanilla_valid:
  assumes "\<not> isl (get_judge_decision_prompt q pc ch h)" and "valid_decision r"
    and "next_response (judge_client self) = Inr (JDict r)"
  shows "fst (make_decision self q pc ch h) = Inr (JDict r)"
proof -
  obtain d where "decision_label Invalid_judge_response (JDict r) = Inr d"
    using decision_label_valid [OF assms(2)] by blast
  then show ?thesis
    by (simp add: make_decision_dict [OF assms(1,3)])
qed

lemma vanilla_invalid:
  assumes "\<not> isl (get_judge_decision_prompt q pc ch h)" and "\<not> valid_decision r"
    and "next_response (judge_client self) = Inr (JDict r)"
  shows "\<exists>e. fst (make_decision self q pc ch h) = Inl e \<and> spec_error_class e = SchemaError"
proof -
  obtain v where "decision_label Invalid_judge_response (JDict r) = Inl (ValueError v)"
    and "v = Invalid_judge_response (JDict r) \<or> (\<exists>d. v = Invalid_decision_choice d)"
    using decision_label_invalid [OF assms(2)] by blast
  then show ?thesis
    by (auto simp: make_decision_dict [OF assms(1,3)])
qed

lemma irac_invalid:
  assumes "\<not> isl (get_judge_decision_prompt_irac q pc ch h)" and "\<not> valid_decision r"
    and "next_response (judge_client self) = Inr (JDict r)"
  shows "\<exists>e. fst (make_decision_irac self q pc ch h) = Inl e \<and> spec_error_class e = SchemaError"
proof -
  obtain v where "decision_label Invalid_judge_IRAC_response (JDict r) = Inl (ValueError v)"
    and "v = Invalid_judge_IRAC_response (JDict r) \<or> (\<exists>d. v = Invalid_decision_choice d)"
    using decision_label_invalid [OF assms(2)] by blast
  then show ?thesis
    by (auto simp: make_decision_irac_dict [OF assms(1,3)] decision_checks_irac_dict)
qed

lemma irac_complete:
  assumes "\<not> isl (get_judge_decision_prompt_irac q pc ch h)"
    and "next_response (judge_client self) = Inr (JDict r)"
    and "valid_decision r" and "complete_synthesis r"
  shows "fst (make_decision_irac self q pc ch h) = Inr (JDict r)"
proof -
  obtain d where d: "decision_label Invalid_judge_IRAC_response (JDict r) = Inr d"
    using decision_label_valid [OF assms(3)] by blast
  obtain s where s: "map_of r ''synthesis'' = Some (JDict s)"
    using assms(4) by (auto simp: complete_synthesis_def split: option.splits json.splits)
  have "find (\<lambda>k. map_of s k = None) irac_keys = None"
    using complete_synthesis_find [OF s] assms(4) by simp
  then show ?thesis
    by (simp add: make_decision_irac_dict [OF assms(1,2)] decision_checks_irac_dict d s
        require_keys_dict)
qed

lemma irac_incomplete:
  assumes "\<not> isl (get_judge_decision_prompt_irac q pc ch h)"
    and "next_response (judge_client self) = Inr (JDict r)"
    and "valid_decision r" and "\<not> complete_synthesis r"
    and "map_of r ''synthesis'' = None \<or> (\<exists>s. map_of r ''synthesis'' = Some (JDict s))"
  shows "\<exists>e. fst (make_decision_irac self q pc ch h) = Inl e \<and> spec_error_class e = SchemaError"
proof -
  obtain d where d: "decision_label Invalid_judge_IRAC_response (JDict r) = Inr d"
    using decision_label_valid [OF assms(3)] by blast
  from assms(5) show ?thesis
  proof
    assume "map_of r ''synthesis'' = None"
    then show ?thesis
      by (simp add: make_decision_irac_dict [OF assms(1,2)] decision_checks_irac_dict d)
  next
    assume "\<exists>s. map_of r ''synthesis'' = Some (JDict s)"
    then obtain s where s: "map_of r ''synthesis'' = Some (JDict s)"
      by blast
    then obtain k where "find (\<lambda>k. map_of s k = None) irac_keys = Some k"
      using complete_synthesis_find [OF s] assms(4) by auto
    then show ?thesis
      by (simp add: make_decision_irac_dict [OF assms(1,2)] decision_checks_irac_dict d s
          require_keys_dict)
  qed
qed

lemma example_prompt_vanilla:
  "\<not> isl (get_judge_decision_prompt ''q'' ''ctx'' example_choices example_history)"
proof -
  obtain ct where ct: "choices_text example_choices = Inr ct"
    using example_choices_text not_isl_Inr by blast
  show ?thesis
    by (simp add: get_judge_decision_prompt_def ct example_history_def get2_def
        empty_dict_def empty_str_def)
qed

lemma example_prompt_irac:
  "\<not> isl (get_judge_decision_prompt_irac ''q'' ''ctx'' example_choices example_history)"
proof -
  obtain ct where ct: "choices_text example_choices = Inr ct"
    using example_choices_text not_isl_Inr by blast
  show ?thesis
    by (simp add: get_judge_decision_prompt_irac_def ct example_history_def get2_def
        empty_dict_def empty_str_def irac_fields_def example_irac_def)
qed

lemma next_response_example_judge:
  "next_response (judge_client (example_judge payload)) = Inr (JDict payload)"
  by (simp add: example_judge_def next_response_mock)

lemma valid_example_decision:
  "valid_decision (example_decision w d) \<longleftrightarrow> JStr d \<in> set labels"
  "valid_decision (example_irac_decision w d) \<longleftrightarrow> JStr d \<in> set labels"
  by (simp_all add: valid_decision_def example_decision_def example_irac_decision_def)

lemma complete_example_irac_decision: "complete_synthesis (example_irac_decision w d)"
  by (simp add: complete_synthesis_def example_irac_decision_def example_irac_def irac_keys_def)

lemma no_synthesis_facts:
  "valid_decision example_decision_no_synthesis"
  "\<not> complete_synthesis example_decision_no_synthesis"
  "map_of example_decision_no_synthesis ''synthesis'' = None"
  by (simp_all add: valid_decision_def complete_synthesis_def example_decision_no_synthesis_def
      labels_def)

text \<open>
  Claim C2 says that the vanilla and the IRAC decision fail with a SchemaError exactly
  when the \<^verbatim>\<open>decision\<close> field is absent or not one of the four labels. The IRAC
  decision also fails with a SchemaError for a payload whose decision is the label A
  and that has no \<^verbatim>\<open>synthesis\<close> field.
\<close>

theorem irac_decision_counterexample:
  "valid_decision example_decision_no_synthesis \<and>
   fst (make_decision_irac (example_judge example_decision_no_synthesis)
          ''q'' ''ctx'' example_choices example_history)
     = Inl (ValueError (Missing_synthesis (JDict example_decision_no_synthesis))) \<and>
   spec_error_class (ValueError (Missing_synthesis (JDict example_decision_no_synthesis)))
     = SchemaError"
proof -
  obtain d where "decision_label Invalid_judge_IRAC_response (JDict example_decision_no_synthesis)
      = Inr d"
    using decision_label_valid [OF no_synthesis_facts(1)] by blast
  then have "fst (make_decision_irac (example_judge example_decision_no_synthesis)
          ''q'' ''ctx'' example_choices example_history)
     = Inl (ValueError (Missing_synthesis (JDict example_decision_no_synthesis)))"
    by (simp add: make_decision_irac_dict [OF example_prompt_irac next_response_example_judge]
        decision_checks_irac_dict no_synthesis_facts(3))
  then show ?thesis
    using no_synthesis_facts(1) by simp
qed

text \<open>
  Claim C2, amended. For a transcript and choices the prompt builder accepts and a
  collaborator that returns a mapping: the vanilla decision returns the payload when
  its \<^verbatim>\<open>decision\<close> field is one of the four labels and fails with a SchemaError
  otherwise; the IRAC decision returns the payload when the decision is a label and
  the \<^verbatim>\<open>synthesis\<close> is a mapping with the four IRAC keys, and fails with a
  SchemaError when the decision is absent or not a label, or the synthesis is absent or
  a mapping that lacks one of the four keys. Neither reads the \<^verbatim>\<open>winner\<close> field.
\<close>

theorem decision_schema_vanilla_irac:
  assumes resp: "next_response (judge_client self) = Inr (JDict response)"
  shows "(\<not> isl (get_judge_decision_prompt question prompt_context choices debate_history) \<longrightarrow>
            (valid_decision response \<longrightarrow>
               fst (make_decision self question prompt_context choices debate_history)
                 = Inr (JDict response)) \<and>
            (\<not> valid_decision response \<longrightarrow>
               (\<exists>e. fst (make_decision self question prompt_context choices debate_history) = Inl e
                    \<and> spec_error_class e = SchemaError))) \<and>
         (\<not> isl (get_judge_decision_prompt_irac question prompt_context choices debate_history) \<longrightarrow>
            (valid_decision response \<and> complete_synthesis response \<longrightarrow>
               fst (make_decision_irac self question prompt_context choices debate_history)
                 = Inr (JDict response)) \<and>
            (\<not> valid_decision response \<longrightarrow>
               (\<exists>e. fst (make_decision_irac self question prompt_context choices debate_history)
                      = Inl e \<and> spec_error_class e = SchemaError)) \<and>
            (valid_decision response \<and> \<not> complete_synthesis response \<and>
             (map_of response ''synthesis'' = None \<or>
              (\<exists>s. map_of response ''synthesis'' = Some (JDict s))) \<longrightarrow>
               (\<exists>e. fst (make_decision_irac self question prompt_context choices debate_history)
                      = Inl e \<and> spec_error_class e = SchemaError)))"
proof (intro conjI impI)
  assume "\<not> isl (get_judge_decision_prompt question prompt_context choices debate_history)"
    and "valid_decision response"
  then show "fst (make_decision self question prompt_context choices debate_history)
      = Inr (JDict response)"
    using resp by (rule vanilla_valid)
next
  assume "\<not> isl (get_judge_decision_prompt question prompt_context choices debate_history)"
    and "\<not> valid_decision response"
  then show "\<exists>e. fst (make_decision self question prompt_context choices debate_history) = Inl e
      \<and> spec_error_class e = SchemaError"
    using resp by (rule vanilla_invalid)
next
  assume "\<not> isl (get_judge_decision_prompt_irac question prompt_context choices debate_history)"
    and "valid_decision response \<and> complete_synthesis response"
  then show "fst (make_decision_irac self question prompt_context choices debate_history)
      = Inr (JDict response)"
    using resp by (blast intro: irac_complete)
next
  assume "\<not> isl (get_judge_decision_prompt_irac question prompt_context choices debate_history)"
    and "\<not> valid_decision response"
  then show "\<exists>e. fst (make_decision_irac self question prompt_context choices debate_history)
      = Inl e \<and> spec_error_class e = SchemaError"
    using resp by (rule irac_invalid)
next
  assume builds: "\<not> isl (get_judge_decision_prompt_irac question prompt_context choices
      debate_history)"
    and "valid_decision response \<and> \<not> complete_synthesis response \<and>
      (map_of response ''synthesis'' = None \<or>
       (\<exists>s. map_of response ''synthesis'' = Some (JDict s)))"
  then have "valid_decision response" "\<not> complete_synthesis response"
    "map_of response ''synthesis'' = None \<or>
       (\<exists>s. map_of response ''synthesis'' = Some (JDict s))"
    by simp_all
  with builds resp
  show "\<exists>e. fst (make_decision_irac self question prompt_context choices debate_history)
      = Inl e \<and> spec_error_class e = SchemaError"
    by (rule irac_incomplete)
qed

text \<open>
  Winner Y with decision A, the position of X, is returned by both variants; the label
  E fails in both; a payload without synthesis fails in the IRAC variant.
\<close>

theorem decision_schema_vanilla_irac_witness:
  "fst (make_decision (example_judge (example_decision ''debater_y'' ''A''))
          ''q'' ''ctx'' example_choices example_history)
     = Inr (JDict (example_decision ''debater_y'' ''A'')) \<and>
   (\<exists>e. fst (make_decision (example_judge (example_decision ''debater_x'' ''E''))
               ''q'' ''ctx'' example_choices example_history) = Inl e
        \<and> spec_error_class e = SchemaError) \<and>
   fst (make_decision_irac (example_judge (example_irac_decision ''debater_y'' ''A''))
          ''q'' ''ctx'' example_choices example_history)
     = Inr (JDict (example_irac_decision ''debater_y'' ''A'')) \<and>
   (\<exists>e. fst (make_decision_irac (example_judge (example_irac_decision ''debater_x'' ''E''))
               ''q'' ''ctx'' example_choices example_history) = Inl e
        \<and> spec_error_class e = SchemaError) \<and>
   (\<exists>e. fst (make_decision_irac (example_judge example_decision_no_synthesis)
               ''q'' ''ctx'' example_choices example_history) = Inl e
        \<and> spec_error_class e = SchemaError)"
proof -
  have A: "JStr ''A'' \<in> set labels" and E: "JStr ''E'' \<notin> set labels"
    by (simp_all add: labels_def)
  have v1: "valid_decision (example_decision ''debater_y'' ''A'')"
    and v2: "\<not> valid_decision (example_decision ''debater_x'' ''E'')"
    and v3: "valid_decision (example_irac_decision ''debater_y'' ''A'')"
    and v4: "\<not> valid_decision (example_irac_decision ''debater_x'' ''E'')"
    using A E by (simp_all add: valid_example_decision)
  have c3: "complete_synthesis (example_irac_decision ''debater_y'' ''A'')"
    by (rule complete_example_irac_decision)
  have g1: "fst (make_decision (example_judge (example_decision ''debater_y'' ''A''))
          ''q'' ''ctx'' example_choices example_history)
     = Inr (JDict (example_decision ''debater_y'' ''A''))"
    using decision_schema_vanilla_irac [OF next_response_example_judge [of "example_decision ''debater_y'' ''A''"],
        where question = "''q''" and prompt_context = "''ctx''" and choices = example_choices
          and debate_history = example_history]
      example_prompt_vanilla v1 by blast
  have g2: "\<exists>e. fst (make_decision (example_judge (example_decision ''debater_x'' ''E''))
               ''q'' ''ctx'' example_choices example_history) = Inl e
        \<and> spec_error_class e = SchemaError"
    using decision_schema_vanilla_irac [OF next_response_example_judge [of "example_decision ''debater_x'' ''E''"],
        where question = "''q''" and prompt_context = "''ctx''" and choices = example_choices
          and debate_history = example_history]
      example_prompt_vanilla v2 by blast
  have g3: "fst (make_decision_irac (example_judge (example_irac_decision ''debater_y'' ''A''))
          ''q'' ''ctx'' example_choices example_history)
     = Inr (JDict (example_irac_decision ''debater_y'' ''A''))"
    using decision_schema_vanilla_irac [OF next_response_example_judge [of "example_irac_decision ''debater_y'' ''A''"],
        where question = "''q''" and prompt_context = "''ctx''" and choices = example_choices
          and debate_history = example_history]
      example_prompt_irac v3 c3
    by blast
  have g4: "\<exists>e. fst (make_decision_irac (example_judge (example_irac_decision ''debater_x'' ''E''))
               ''q'' ''ctx'' example_choices example_history) = Inl e
        \<and> spec_error_class e = SchemaError"
    using decision_schema_vanilla_irac [OF next_response_example_judge [of "example_irac_decision ''debater_x'' ''E''"],
        where question = "''q''" and prompt_context = "''ctx''" and choices = example_choices
          and debate_history = example_history]
      example_prompt_irac v4 by blast
  have g5: "\<exists>e. fst (make_decision_irac (example_judge example_decision_no_synthesis)
               ''q'' ''ctx'' example_choices example_history) = Inl e
        \<and> spec_error_class e = SchemaError"
    using decision_schema_vanilla_irac [OF next_response_example_judge [of example_decision_no_synthesis],
        where question = "''q''" and prompt_context = "''ctx''" and choices = example_choices
          and debate_history = example_history]
      example_prompt_irac no_synthesis_facts
    by blast
  from g1 g2 g3 g4 g5 show ?thesis
    by (intro conjI)
qed

section \<open>Statelessness of the Judge\<close>

lemma next_response_fixed: "script c = fixed_response v \<Longrightarrow> next_response c = Inr v"
  by (simp add: next_response_def fixed_response_def)

lemma make_decision_script:
  "script (judge_client (snd (make_decision j q pc ch h))) = script (judge_client j)"
  by (simp add: make_decision_def generate_json_def split: sum.splits prod.splits)

text \<open>
  Claim C7. The outcome of a decision is a function of the question, the context, the
  choices, the transcript and the response the collaborator gives to this call: two
  Judges, in particular one Judge before and after any earlier calls, that receive the
  same response on the same inputs give the same outcome, in each of the three
  variants. A Judge has no field but its client.
\<close>

theorem decide_is_stateless:
  assumes "next_response (judge_client j1) = next_response (judge_client j2)"
  shows "fst (make_decision j1 question prompt_context choices debate_history)
           = fst (make_decision j2 question prompt_context choices debate_history) \<and>
         fst (make_decision_irac j1 question prompt_context choices debate_history)
           = fst (make_decision_irac j2 question prompt_context choices debate_history) \<and>
         fst (make_decision_hybrid j1 question prompt_context choices debate_history)
           = fst (make_decision_hybrid j2 question prompt_context choices debate_history)"
  by (simp add: make_decision_fst make_decision_irac_fst make_decision_hybrid_fst assms)

text \<open>Two successive calls on one Judge whose collaborator answers both alike.\<close>

theorem decide_is_stateless_witness:
  "next_response (judge_client (example_judge (example_decision ''debater_x'' ''A'')))
     = next_response (judge_client (snd (make_decision
          (example_judge (example_decision ''debater_x'' ''A''))
          ''q'' ''ctx'' example_choices example_history))) \<and>
   fst (make_decision
          (snd (make_decision (example_judge (example_decision ''debater_x'' ''A''))
                  ''q'' ''ctx'' example_choices example_history))
          ''q'' ''ctx'' example_choices example_history)
     = fst (make_decision (example_judge (example_decision ''debater_x'' ''A''))
              ''q'' ''ctx'' example_choices example_history) \<and>
   fst (make_decision (example_judge (example_decision ''debater_x'' ''A''))
          ''q'' ''ctx'' example_choices example_history)
     = Inr (JDict (example_decision ''debater_x'' ''A''))"
proof -
  let ?j = "example_judge (example_decision ''debater_x'' ''A'')"
  let ?j' = "snd (make_decision ?j ''q'' ''ctx'' example_choices example_history)"
  have "script (judge_client ?j') = fixed_response (JDict (example_decision ''debater_x'' ''A''))"
    by (simp add: make_decision_script example_judge_def mock_client_def)
  then have same: "next_response (judge_client ?j) = next_response (judge_client ?j')"
    by (simp add: next_response_fixed next_response_example_judge)
  have "valid_decision (example_decision ''debater_x'' ''A'')"
    by (simp add: valid_example_decision labels_def)
  then have first: "fst (make_decision ?j ''q'' ''ctx'' example_choices example_history)
      = Inr (JDict (example_decision ''debater_x'' ''A''))"
    using example_prompt_vanilla next_response_example_judge by (intro vanilla_valid)
  from decide_is_stateless [OF same, of "''q''" "''ctx''" example_choices example_history]
  have "fst (make_decision ?j' ''q'' ''ctx'' example_choices example_history)
      = fst (make_decision ?j ''q'' ''ctx'' example_choices example_history)"
    by simp
  with same first show ?thesis
    by (intro conjI)
qed

section \<open>Openings\<close>

lemma opening_prompt_builds:
  "length choices \<le> 1114047 \<Longrightarrow> \<exists>p. get_debater_opening_prompt q pc choices pos = Inr p"
  by (cases pos) (simp_all add: get_debater_opening_prompt_def choices_text_def)

lemma opening_prompt_irac_builds:
  "length choices \<le> 1114047 \<Longrightarrow> \<exists>p. get_debater_opening_prompt_irac q pc choices pos = Inr p"
  by (cases pos) (simp_all add: get_debater_opening_prompt_irac_def choices_text_def)

lemma opening_position_dict:
  "opening_position (JDict r) =
     (case map_of r ''position'' of
        None \<Rightarrow> Inl (ValueError (Invalid_debater_response (JDict r)))
      | Some p \<Rightarrow>
          (case map_of r ''argument'' of
             None \<Rightarrow> Inl (ValueError (Invalid_debater_response (JDict r)))
           | Some a \<Rightarrow> Inr p))"
  by (simp add: opening_position_def split: option.splits)



lemma opening_position_irac_dict:
  "opening_position_irac (JDict r) =
     (case map_of r ''position'' of
        None \<Rightarrow> Inl (ValueError (Invalid_IRAC_debater_response (JDict r)))
      | Some p \<Rightarrow>
          (case map_of r ''irac'' of
             None \<Rightarrow> Inl (ValueError (Invalid_IRAC_debater_response (JDict r)))
           | Some irac \<Rightarrow>
               and_then (require_keys (\<lambda>key. Missing_IRAC_component key (JDict r)) irac_keys irac)
                 (\<lambda>_. Inr p)))"
  by (simp add: opening_position_irac_def split: option.splits)

lemma generate_opening_fst:
  "get_debater_opening_prompt q pc ch pos = Inr p \<Longrightarrow>
   next_response (self_client self) = Inr response \<Longrightarrow>
   fst (generate_opening self q pc ch pos) = and_then (opening_position response) (\<lambda>_. Inr response)"
  by (cases "opening_position response") (simp_all add: generate_opening_def generate_json_Inr)

lemma generate_opening_irac_body_fst:
  "builder q pc ch pos = Inr p \<Longrightarrow>
   next_response (self_client self) = Inr response \<Longrightarrow>
   fst (generate_opening_irac_body builder self q pc ch pos)
     = and_then (opening_position_irac response) (\<lambda>_. Inr response)"
  by (cases "opening_position_irac response")
    (simp_all add: generate_opening_irac_body_def generate_json_Inr)

lemma generate_opening_eval:
  assumes "length ch \<le> 1114047" and "next_response (self_client self) = Inr response"
  shows "fst (generate_opening self q pc ch pos)
           = and_then (opening_position response) (\<lambda>_. Inr response)"
proof -
  obtain p where "get_debater_opening_prompt q pc ch pos = Inr p"
    using opening_prompt_builds [OF assms(1)] by blast
  then show ?thesis
    by (rule generate_opening_fst [OF _ assms(2)])
qed

lemma generate_opening_irac_body_eval:
  assumes "length ch \<le> 1114047" and "next_response (self_client self) = Inr response"
  shows "fst (generate_opening_irac_body get_debater_opening_prompt_irac self q pc ch pos)
           = and_then (opening_position_irac response) (\<lambda>_. Inr response)"
proof -
  obtain p where "get_debater_opening_prompt_irac q pc ch pos = Inr p"
    using opening_prompt_irac_builds [OF assms(1)] by blast
  then show ?thesis
    by (rule generate_opening_irac_body_fst [OF _ assms(2)])
qed

lemma example_choices_length: "length example_choices \<le> 1114047"
  by (simp add: example_choices_def)

lemma next_response_init: "next_response (self_client (Debater_init (mock_client v) n)) = Inr v"
  by (simp add: Debater_init_def next_response_mock)

lemma next_response_example_debater: "next_response (self_client (example_debater v)) = Inr v"
  by (simp add: example_debater_def next_response_mock)

lemma opening_no_argument_fails:
  "opening_position example_opening_no_argument
     = Inl (ValueError (Invalid_debater_response example_opening_no_argument))"
  by (simp add: example_opening_no_argument_def opening_position_dict)

lemma opening_irac_no_issue_fails:
  "opening_position_irac (example_opening_irac [''rule'', ''application'', ''conclusion''])
     = Inl (ValueError (Missing_IRAC_component ''issue''
              (example_opening_irac [''rule'', ''application'', ''conclusion''])))"
  by (simp add: example_opening_irac_def opening_position_irac_dict require_keys_dict
      irac_keys_def)

lemma generate_opening_no_argument:
  "next_response (self_client self) = Inr example_opening_no_argument \<Longrightarrow>
   fst (generate_opening self ''q'' ''ctx'' example_choices pos)
     = Inl (ValueError (Invalid_debater_response example_opening_no_argument))"
  by (simp add: generate_opening_eval [OF example_choices_length] opening_no_argument_fails)

text \<open>
  Claim C10. Vanilla opening, for at most 1114047 choices: when the collaborator
  returns a mapping that has the \<^verbatim>\<open>position\<close> key and lacks the \<^verbatim>\<open>argument\<close>
  key, the call fails with the \<^verbatim>\<open>ValueError\<close> of line 56, a SchemaError.
\<close>

theorem opening_requires_argument:
  assumes choices: "length choices \<le> 1114047"
    and resp: "next_response (self_client self) = Inr (JDict response)"
    and pos: "map_of response ''position'' \<noteq> None"
    and arg: "map_of response ''argument'' = None"
  shows "fst (generate_opening self question prompt_context choices position)
           = Inl (ValueError (Invalid_debater_response (JDict response))) \<and>
         spec_error_class (ValueError (Invalid_debater_response (JDict response))) = SchemaError"
proof -
  obtain p where p: "get_debater_opening_prompt question prompt_context choices position = Inr p"
    using opening_prompt_builds [OF choices] by blast
  have "opening_position (JDict response) = Inl (ValueError (Invalid_debater_response (JDict response)))"
    using pos arg by (auto simp: opening_position_dict split: option.splits)
  then show ?thesis
    by (simp add: generate_opening_fst [OF p resp])
qed

theorem opening_requires_argument_witness:
  "fst (generate_opening (Debater_init (mock_client example_opening_no_argument) ''debater_x'')
          ''q'' ''ctx'' example_choices (Some ''A''))
     = Inl (ValueError (Invalid_debater_response example_opening_no_argument)) \<and>
   spec_error_class (ValueError (Invalid_debater_response example_opening_no_argument))
     = SchemaError"
proof -
  have resp: "next_response (self_client (Debater_init (mock_client example_opening_no_argument)
        ''debater_x'')) = Inr (JDict [(''position'', JStr ''A''), (''citations'', JList [])])"
    by (simp add: next_response_init example_opening_no_argument_def)
  have pos: "map_of [(''position'', JStr ''A''), (''citations'', JList [])] ''position'' \<noteq> None"
    by simp
  have arg: "map_of [(''position'', JStr ''A''), (''citations'', JList [])] ''argument'' = None"
    by simp
  show ?thesis
    using opening_requires_argument [OF example_choices_length resp pos arg]
    by (simp add: example_opening_no_argument_def)
qed













section \<open>The IRAC opening and its import\<close>

lemma generate_opening_irac_raises:
  "generate_opening_irac self question prompt_context choices pos =
     (Inl (ImportError ''src.agents.prompts'' ''get_debater_opening_prompt_irac''), self)"
  by (simp add: generate_opening_irac_def import_opening_irac)

text \<open>
  The validation of lines 131 to 140 does what Claim C4 says once a prompt builder is
  at hand: a response without \<^verbatim>\<open>position\<close>, or whose \<^verbatim>\<open>irac\<close> mapping lacks one
  of the four keys, is a SchemaError.
\<close>

lemma find_missing_key:
  "key \<in> set keys \<Longrightarrow> map_of s key = None \<Longrightarrow>
   \<exists>k. find (\<lambda>k. map_of s k = None) keys = Some k"
  by (cases "find (\<lambda>k. map_of s k = None) keys") (auto simp: find_None_iff)

lemma generate_opening_irac_body_schema:
  assumes builds: "\<not> isl (builder q pc ch pos)"
    and resp: "next_response (self_client self) = Inr (JDict r)"
    and missing: "map_of r ''position'' = None \<or>
       (\<exists>irac key. map_of r ''irac'' = Some (JDict irac) \<and> key \<in> set irac_keys \<and>
          map_of irac key = None)"
  shows "\<exists>e. fst (generate_opening_irac_body builder self q pc ch pos) = Inl e \<and>
             spec_error_class e = SchemaError"
proof -
  obtain p where p: "builder q pc ch pos = Inr p"
    using builds not_isl_Inr by blast
  have "\<exists>v. opening_position_irac (JDict r) = Inl (ValueError v) \<and>
            spec_error_class (ValueError v) = SchemaError"
  proof (cases "map_of r ''position''")
    case None
    then show ?thesis
      by (simp add: opening_position_irac_dict)
  next
    case (Some pv)
    with missing obtain irac key where i: "map_of r ''irac'' = Some (JDict irac)"
      and k: "key \<in> set irac_keys" "map_of irac key = None"
      by auto
    obtain k' where "find (\<lambda>k. map_of irac k = None) irac_keys = Some k'"
      using find_missing_key [OF k] by blast
    then show ?thesis
      by (simp add: opening_position_irac_dict Some i require_keys_dict)
  qed
  then obtain v where "opening_position_irac (JDict r) = Inl (ValueError v)"
    and "spec_error_class (ValueError v) = SchemaError"
    by blast
  then show ?thesis
    by (simp add: generate_opening_irac_body_fst [where builder = builder, OF p resp])
qed

text \<open>
  Claim C4 says that the IRAC opening fails with a SchemaError when the response lacks
  one of the four IRAC keys. For a response without \<^verbatim>\<open>issue\<close> the method raises the
  \<^verbatim>\<open>ImportError\<close> of line 120 instead, before any call to the collaborator; its body,
  given the builder of \<^verbatim>\<open>prompts_experimental.py\<close>, raises the SchemaError.
\<close>

theorem irac_opening_raises_import_error:
  "fst (generate_opening_irac
          (Debater_init
             (mock_client (example_opening_irac [''rule'', ''application'', ''conclusion'']))
             ''debater_x'')
          ''q'' ''ctx'' example_choices (Some ''A''))
     = Inl (ImportError ''src.agents.prompts'' ''get_debater_opening_prompt_irac'') \<and>
   spec_error_class (ImportError ''src.agents.prompts'' ''get_debater_opening_prompt_irac'')
     = Unclassified \<and>
   calls (self_client (snd (generate_opening_irac
          (Debater_init
             (mock_client (example_opening_irac [''rule'', ''application'', ''conclusion'']))
             ''debater_x'')
          ''q'' ''ctx'' example_choices (Some ''A'')))) = [] \<and>
   fst (generate_opening_irac_body get_debater_opening_prompt_irac
          (Debater_init
             (mock_client (example_opening_irac [''rule'', ''application'', ''conclusion'']))
             ''debater_x'')
          ''q'' ''ctx'' example_choices (Some ''A''))
     = Inl (ValueError (Missing_IRAC_component ''issue''
              (example_opening_irac [''rule'', ''application'', ''conclusion''])))"
proof -
  let ?self = "Debater_init
             (mock_client (example_opening_irac [''rule'', ''application'', ''conclusion'']))
             ''debater_x''"
  have raised: "generate_opening_irac ?self ''q'' ''ctx'' example_choices (Some ''A'')
      = (Inl (ImportError ''src.agents.prompts'' ''get_debater_opening_prompt_irac''), ?self)"
    by (rule generate_opening_irac_raises)
  have no_call: "calls (self_client ?self) = []"
    by (simp add: Debater_init_def mock_client_def)
  have body: "fst (generate_opening_irac_body get_debater_opening_prompt_irac ?self
                     ''q'' ''ctx'' example_choices (Some ''A''))
      = Inl (ValueError (Missing_IRAC_component ''issue''
              (example_opening_irac [''rule'', ''application'', ''conclusion''])))"
    by (simp add: generate_opening_irac_body_eval [OF example_choices_length next_response_init]
        opening_irac_no_issue_fails)
  show ?thesis
    using no_call body by (simp add: raised)
qed

section \<open>What the Debater's methods change\<close>

lemma generate_opening_fails:
  "generate_opening self question prompt_context choices pos = (Inl e, self') \<Longrightarrow>
   self_position self' = self_position self \<and>
   self_opening_argument self' = self_opening_argument self"
  by (auto simp: generate_opening_def split: sum.splits prod.splits)

lemma generate_opening_irac_body_fails:
  "generate_opening_irac_body b self question prompt_context choices pos = (Inl e, self') \<Longrightarrow>
   self_position self' = self_position self \<and>
   self_opening_argument self' = self_opening_argument self"
  by (auto simp: generate_opening_irac_body_def split: sum.splits prod.splits)

text \<open>
  Claim C8. An opening call that fails, with a SchemaError or any other error, leaves
  the stored position and opening argument as they were: the vanilla opening, the IRAC
  opening, and the body of the IRAC opening for any prompt builder.
\<close>

theorem opening_failure_is_atomic:
  "(generate_opening self question prompt_context choices position = (Inl e, self') \<longrightarrow>
      self_position self' = self_position self \<and>
      self_opening_argument self' = self_opening_argument self) \<and>
   (generate_opening_irac self question prompt_context choices position = (Inl e, self') \<longrightarrow>
      self_position self' = self_position self \<and>
      self_opening_argument self' = self_opening_argument self) \<and>
   (generate_opening_irac_body builder self question prompt_context choices position
        = (Inl e, self') \<longrightarrow>
      self_position self' = self_position self \<and>
      self_opening_argument self' = self_opening_argument self)"
  using generate_opening_fails generate_opening_irac_body_fails
  by (auto simp: generate_opening_irac_raises)

text \<open>
  A Debater that stored position B: a vanilla opening answered without
  \<^verbatim>\<open>argument\<close>, the IRAC opening, and the IRAC body answered without \<^verbatim>\<open>issue\<close>
  all fail and leave B.
\<close>

theorem opening_failure_is_atomic_witness:
  "fst (generate_opening (example_debater example_opening_no_argument) ''q'' ''ctx''
          example_choices (Some ''A''))
     = Inl (ValueError (Invalid_debater_response example_opening_no_argument)) \<and>
   self_position (snd (generate_opening (example_debater example_opening_no_argument)
                         ''q'' ''ctx'' example_choices (Some ''A''))) = JStr ''B'' \<and>
   self_opening_argument (snd (generate_opening (example_debater example_opening_no_argument)
                         ''q'' ''ctx'' example_choices (Some ''A''))) = example_opening ''B'' \<and>
   fst (generate_opening_irac (example_debater example_opening_no_argument) ''q'' ''ctx''
          example_choices (Some ''A''))
     = Inl (ImportError ''src.agents.prompts'' ''get_debater_opening_prompt_irac'') \<and>
   self_position (snd (generate_opening_irac (example_debater example_opening_no_argument)
                         ''q'' ''ctx'' example_choices (Some ''A''))) = JStr ''B'' \<and>
   fst (generate_opening_irac_body get_debater_opening_prompt_irac
          (example_debater (example_opening_irac [''rule'', ''application'', ''conclusion'']))
          ''q'' ''ctx'' example_choices (Some ''A''))
     = Inl (ValueError (Missing_IRAC_component ''issue''
              (example_opening_irac [''rule'', ''application'', ''conclusion'']))) \<and>
   self_position (snd (generate_opening_irac_body get_debater_opening_prompt_irac
          (example_debater (example_opening_irac [''rule'', ''application'', ''conclusion'']))
          ''q'' ''ctx'' example_choices (Some ''A''))) = JStr ''B''"
proof -
  let ?d = "example_debater example_opening_no_argument"
  let ?d' = "example_debater (example_opening_irac [''rule'', ''application'', ''conclusion''])"
  let ?o = "generate_opening ?d ''q'' ''ctx'' example_choices (Some ''A'')"
  let ?i = "generate_opening_irac ?d ''q'' ''ctx'' example_choices (Some ''A'')"
  let ?b = "generate_opening_irac_body get_debater_opening_prompt_irac ?d' ''q'' ''ctx''
              example_choices (Some ''A'')"
  have o: "fst ?o = Inl (ValueError (Invalid_debater_response example_opening_no_argument))"
    by (rule generate_opening_no_argument [OF next_response_example_debater])
  have i: "fst ?i = Inl (ImportError ''src.agents.prompts'' ''get_debater_opening_prompt_irac'')"
    by (simp add: generate_opening_irac_raises)
  have b: "fst ?b = Inl (ValueError (Missing_IRAC_component ''issue''
              (example_opening_irac [''rule'', ''application'', ''conclusion''])))"
    by (simp add: generate_opening_irac_body_eval [OF example_choices_length
          next_response_example_debater] opening_irac_no_issue_fails)
  have o': "?o = (Inl (ValueError (Invalid_debater_response example_opening_no_argument)), snd ?o)"
    using o by (simp add: prod_eq_iff)
  have i': "?i = (Inl (ImportError ''src.agents.prompts'' ''get_debater_opening_prompt_irac''), snd ?i)"
    using i by (simp add: prod_eq_iff)
  have b': "?b = (Inl (ValueError (Missing_IRAC_component ''issue''
              (example_opening_irac [''rule'', ''application'', ''conclusion'']))), snd ?b)"
    using b by (simp add: prod_eq_iff)
  have start: "self_position ?d = JStr ''B''" "self_opening_argument ?d = example_opening ''B''"
    "self_position ?d' = JStr ''B''"
    by (simp_all add: example_debater_def)
  have fo: "self_position (snd ?o) = self_position ?d \<and>
            self_opening_argument (snd ?o) = self_opening_argument ?d"
    using opening_failure_is_atomic [THEN conjunct1, rule_format, OF o'] .
  have fi: "self_position (snd ?i) = self_position ?d \<and>
            self_opening_argument (snd ?i) = self_opening_argument ?d"
    using opening_failure_is_atomic [THEN conjunct2, THEN conjunct1, rule_format, OF i'] .
  have fb: "self_position (snd ?b) = self_position ?d' \<and>
            self_opening_argument (snd ?b) = self_opening_argument ?d'"
    using opening_failure_is_atomic [THEN conjunct2, THEN conjunct2, rule_format, OF b'] .
  from o i b fo fi fb start show ?thesis
    by simp
qed

lemma generate_rebuttal_frame:
  "generate_rebuttal self question prompt_context opp = (r, self') \<Longrightarrow>
   self_position self' = self_position self \<and>
   self_opening_argument self' = self_opening_argument self"
  by (auto simp: generate_rebuttal_def split: sum.splits prod.splits if_splits)

lemma generate_rebuttal_irac_body_frame:
  "generate_rebuttal_irac_body b self question prompt_context opp = (r, self') \<Longrightarrow>
   self_position self' = self_position self \<and>
   self_opening_argument self' = self_opening_argument self"
  by (auto simp: generate_rebuttal_irac_body_def split: sum.splits prod.splits)

lemma generate_rebuttal_irac_frame:
  "generate_rebuttal_irac self question prompt_context opp = (r, self') \<Longrightarrow>
   self_position self' = self_position self \<and>
   self_opening_argument self' = self_opening_argument self"
  by (auto simp: generate_rebuttal_irac_def import_rebuttal_irac split: if_splits)

text \<open>
  Claim C6. For every Debater state and every input, the vanilla rebuttal, the IRAC
  rebuttal and the body of the IRAC rebuttal leave the stored position and opening
  argument unchanged, whether they return or raise.
\<close>

theorem rebuttal_leaves_opening_state:
  "self_position (snd (generate_rebuttal self question prompt_context opponent_opening))
     = self_position self \<and>
   self_opening_argument (snd (generate_rebuttal self question prompt_context opponent_opening))
     = self_opening_argument self \<and>
   self_position (snd (generate_rebuttal_irac self question prompt_context opponent_opening))
     = self_position self \<and>
   self_opening_argument (snd (generate_rebuttal_irac self question prompt_context opponent_opening))
     = self_opening_argument self \<and>
   self_position (snd (generate_rebuttal_irac_body builder self question prompt_context
                         opponent_opening))
     = self_position self \<and>
   self_opening_argument (snd (generate_rebuttal_irac_body builder self question prompt_context
                                 opponent_opening))
     = self_opening_argument self"
  using generate_rebuttal_frame [OF prod.collapse [symmetric]]
    generate_rebuttal_irac_frame [OF prod.collapse [symmetric]]
    generate_rebuttal_irac_body_frame [OF prod.collapse [symmetric]]
  by blast

section \<open>Rebuttal before opening\<close>

lemma call_debater_frame:
  assumes "call_debater self c = (r, self')" and "is_opening_call c \<longrightarrow> isl r"
  shows "self_position self' = self_position self \<and>
         self_opening_argument self' = self_opening_argument self"
proof (cases c)
  case (Call_generate_opening q pc ch pos)
  with assms obtain e where "generate_opening self q pc ch pos = (Inl e, self')"
    by (cases r) auto
  then show ?thesis
    by (rule generate_opening_fails)
next
  case (Call_generate_opening_irac q pc ch pos)
  with assms show ?thesis
    by (simp add: generate_opening_irac_raises)
next
  case (Call_generate_rebuttal q pc opp)
  with assms show ?thesis
    using generate_rebuttal_frame by simp
next
  case (Call_generate_rebuttal_irac q pc opp)
  with assms show ?thesis
    using generate_rebuttal_irac_frame by simp
qed

lemma run_calls_frame:
  "run_calls self cs = (trace, final) \<Longrightarrow> no_opening_succeeded trace \<Longrightarrow>
   self_position final = self_position self \<and>
   self_opening_argument final = self_opening_argument self"
proof (induction cs arbitrary: self trace final)
  case Nil
  then show ?case by simp
next
  case (Cons c cs)
  obtain r self' where step: "call_debater self c = (r, self')"
    by (cases "call_debater self c")
  obtain rest final' where run: "run_calls self' cs = (rest, final')"
    by (cases "run_calls self' cs")
  from Cons.prems(1) step run have tr: "trace = (c, r) # rest" and fin: "final = final'"
    by simp_all
  from Cons.prems(2) tr have ok: "is_opening_call c \<longrightarrow> isl r" and rest: "no_opening_succeeded rest"
    by (simp_all add: no_opening_succeeded_def)
  from Cons.IH [OF run rest] call_debater_frame [OF step ok] fin show ?case
    by simp
qed

lemma example_failed_calls_trace:
  "no_opening_succeeded
     (fst (run_calls (Debater_init (mock_client example_opening_no_argument) ''debater_x'')
             example_failed_calls))"
proof -
  let ?d = "Debater_init (mock_client example_opening_no_argument) ''debater_x''"
  obtain r1 d1 where s1: "generate_opening ?d ''q'' ''ctx'' example_choices (Some ''A'') = (r1, d1)"
    by (cases "generate_opening ?d ''q'' ''ctx'' example_choices (Some ''A'')")
  have "fst (generate_opening ?d ''q'' ''ctx'' example_choices (Some ''A''))
      = Inl (ValueError (Invalid_debater_response example_opening_no_argument))"
    by (rule generate_opening_no_argument [OF next_response_init])
  with s1 have r1: "isl r1"
    by simp
  obtain r2 d2 where s2: "generate_rebuttal d1 ''q'' ''ctx'' [] = (r2, d2)"
    by (cases "generate_rebuttal d1 ''q'' ''ctx'' []")
  show ?thesis
    by (simp add: example_failed_calls_def generate_opening_irac_raises s1 s2 r1
        no_opening_succeeded_def)
qed

text \<open>
  Claim C3. On a Debater reached from its construction by any calls among which no
  opening has succeeded, the vanilla and the IRAC rebuttal fail with the
  \<^verbatim>\<open>ValueError\<close> of lines 81 and 165, a SequenceError, and return the Debater as it
  was, the log of calls to the collaborator included: no call is made.
\<close>

theorem rebuttal_before_opening:
  assumes run: "run_calls (Debater_init c n) cs = (trace, self)"
    and none: "no_opening_succeeded trace"
  shows "generate_rebuttal self question prompt_context opponent_opening
           = (Inl (ValueError Must_generate_opening_before_rebuttal), self) \<and>
         generate_rebuttal_irac self question prompt_context opponent_opening
           = (Inl (ValueError Must_generate_opening_before_rebuttal), self) \<and>
         spec_error_class (ValueError Must_generate_opening_before_rebuttal) = SequenceError \<and>
         calls (self_client
                  (snd (generate_rebuttal self question prompt_context opponent_opening)))
           = calls (self_client self) \<and>
         calls (self_client
                  (snd (generate_rebuttal_irac self question prompt_context opponent_opening)))
           = calls (self_client self)"
proof -
  have "self_opening_argument self = JNull"
    using run_calls_frame [OF run none] by (simp add: Debater_init_def)
  then show ?thesis
    by (simp add: generate_rebuttal_def generate_rebuttal_irac_def)
qed

theorem rebuttal_before_opening_witness:
  "no_opening_succeeded
     (fst (run_calls (Debater_init (mock_client example_opening_no_argument) ''debater_x'')
             example_failed_calls)) \<and>
   generate_rebuttal
     (snd (run_calls (Debater_init (mock_client example_opening_no_argument) ''debater_x'')
             example_failed_calls))
     ''q'' ''ctx'' []
     = (Inl (ValueError Must_generate_opening_before_rebuttal),
        snd (run_calls (Debater_init (mock_client example_opening_no_argument) ''debater_x'')
               example_failed_calls)) \<and>
   generate_rebuttal_irac
     (snd (run_calls (Debater_init (mock_client example_opening_no_argument) ''debater_x'')
             example_failed_calls))
     ''q'' ''ctx'' []
     = (Inl (ValueError Must_generate_opening_before_rebuttal),
        snd (run_calls (Debater_init (mock_client example_opening_no_argument) ''debater_x'')
               example_failed_calls))"
  using rebuttal_before_opening [OF prod.collapse [symmetric] example_failed_calls_trace,
      of "''q''" "''ctx''" "[]"]
    example_failed_calls_trace
  by blast

end
